theory Spec2Isabelle
  imports Main "HOL-Library.AList" "HOL-Library.Char_ord" "HOL-Library.List_Lexorder"
    "HOL-Library.Multiset"
begin

section \<open>Python values, exceptions and the outside world\<close>

text \<open>
  The development follows \<^verbatim>\<open>src/src/idata.py\<close> (class \<^verbatim>\<open>Idata\<close>) and
  \<^verbatim>\<open>src/flame/parameters.py\<close> (class \<^verbatim>\<open>Parameters\<close>).
  A Python function that may raise returns \<open>py_error + 'a\<close>, with \<open>Inl\<close> the exception
  that leaves the function. The \<open>(success, results)\<close> tuples of the source are pairs whose
  first component is the flag.
\<close>

datatype py_error =
    UnboundLocalError | ValueError | TypeError | KeyError | IndexError
  | OverflowError | OSError

text \<open>
  The files and the console. \<open>files\<close> maps a path to the text stored under it,
  \<open>stdout\<close> holds the lines printed so far and \<open>trace\<close> the file operations in the
  order in which they happened. \<open>undeletable\<close> lists the paths whose removal the
  operating system refuses.
\<close>

datatype fs_event =
    Open string | Write string string | Close string | Remove string

record world =
  files :: "string \<rightharpoonup> string"
  undeletable :: "string list"
  stdout :: "string list"
  trace :: "fs_event list"

definition print :: "string \<Rightarrow> world \<Rightarrow> world" where
  "print s w = w\<lparr>stdout := stdout w @ [s]\<rparr>"

text \<open>
  \<^verbatim>\<open>open(path, 'w')\<close>: the file is created or truncated. That the file can be
  opened for writing is taken for granted.
\<close>

definition open_w :: "string \<Rightarrow> world \<Rightarrow> world" where
  "open_w path w = w\<lparr>files := (files w)(path \<mapsto> []), trace := trace w @ [Open path]\<rparr>"

text \<open>\<^verbatim>\<open>fo.write(s)\<close> on the file opened under \<open>path\<close>.\<close>

definition fo_write :: "string \<Rightarrow> string \<Rightarrow> world \<Rightarrow> world" where
  "fo_write path s w =
     w\<lparr>files := (files w)(path \<mapsto> (case files w path of None \<Rightarrow> s | Some c \<Rightarrow> c @ s)),
       trace := trace w @ [Write path s]\<rparr>"

text \<open>Leaving the \<^verbatim>\<open>with\<close> block closes the file.\<close>

definition fo_close :: "string \<Rightarrow> world \<Rightarrow> world" where
  "fo_close path w = w\<lparr>trace := trace w @ [Close path]\<rparr>"

text \<open>
  \<^verbatim>\<open>os.remove(path)\<close> raises \<^verbatim>\<open>OSError\<close> (of which \<^verbatim>\<open>FileNotFoundError\<close> and
  \<^verbatim>\<open>PermissionError\<close> are subclasses) when the file is absent or may not be removed.
\<close>

definition os_remove :: "string \<Rightarrow> world \<Rightarrow> py_error + world" where
  "os_remove path w =
     (if files w path = None \<or> path \<in> set (undeletable w) then Inl OSError
      else Inr (w\<lparr>files := (files w)(path := None), trace := trace w @ [Remove path]\<rparr>))"

subsection \<open>Printing numbers\<close>

definition digit_char :: "nat \<Rightarrow> char" where
  "digit_char d = ''0123456789'' ! (d mod 10)"

text \<open>\<^verbatim>\<open>str(n)\<close> for a non-negative integer.\<close>

fun str_nat :: "nat \<Rightarrow> string" where
  "str_nat n = (if n < 10 then [digit_char n] else str_nat (n div 10) @ [digit_char (n mod 10)])"

declare str_nat.simps [simp del]

text \<open>\<^verbatim>\<open>'%0.10d' % n\<close>: at least ten digits, padded with zeros on the left.\<close>

definition fmt_d10 :: "nat \<Rightarrow> string" where
  "fmt_d10 n = replicate (10 - length (str_nat n)) CHR ''0'' @ str_nat n"

section \<open>Feature matrices and chunk results\<close>

text \<open>
  A two-dimensional numpy array: its column count and its rows. \<^verbatim>\<open>np.vstack\<close> of two
  such arrays raises \<^verbatim>\<open>ValueError\<close> unless the column counts agree, and otherwise puts
  the rows of the second beneath those of the first.
\<close>

record 'a ndarray =
  ncols :: nat
  rows :: "'a list list"

definition vstack :: "'a ndarray \<Rightarrow> 'a ndarray \<Rightarrow> py_error + 'a ndarray" where
  "vstack a b =
     (if ncols a = ncols b then Inr \<lparr>ncols = ncols a, rows = rows a @ rows b\<rparr>
      else Inl ValueError)"

text \<open>
  What a descriptor method hands back as its first component: a numpy array, or an object
  of some other module.
\<close>

datatype 'a xmatrix = Numpy "'a ndarray" | NotNumpy

text \<open>
  The second component of a \<open>(success, results)\<close> tuple: the pair
  \<open>(xmatrix, var_name)\<close>, or a message.
\<close>

datatype 'a payload = MDpair "'a xmatrix" "string list" | Msg string

type_synonym 'a outcome = "bool \<times> 'a payload"

text \<open>
  An element of the name list that \<open>consolidate\<close> builds: a name, or a whole list of
  names appended as one element.
\<close>

datatype name_entry = Name string | Names "string list"

section \<open>\<^verbatim>\<open>Idata.consolidate\<close>\<close>

text \<open>
  The local variables of \<^verbatim>\<open>consolidate\<close> while the loop runs. \<^verbatim>\<open>success\<close> is
  \<open>True\<close> until a failed chunk is met, and then the loop is left.
\<close>

record 'a cstate =
  first :: bool
  nresults :: "'a ndarray option"
  nnames :: "name_entry list"
  cworld :: world

text \<open>
  The loop. \<open>Inl e\<close>: an exception left the loop; \<open>Inr (False, st)\<close>: the loop was left
  by \<^verbatim>\<open>break\<close> with \<^verbatim>\<open>success = False\<close>; \<open>Inr (True, st)\<close>: the list was exhausted.
  With \<^verbatim>\<open>internal = iresults[1]\<close> a message, \<^verbatim>\<open>internal[0]\<close> is its first character
  (and \<^verbatim>\<open>IndexError\<close> for the empty message), which is no numpy object.
  \<^verbatim>\<open>nnames = internal[1]\<close> makes \<^verbatim>\<open>nnames\<close> the first chunk's name list and
  \<^verbatim>\<open>nnames.append(internal[1])\<close> adds the later chunk's list to it as one element.
  The chunk results come back from separate worker processes, so no two of them share a
  list object.
\<close>

fun consolidate_loop :: "'a outcome list \<Rightarrow> 'a cstate \<Rightarrow> py_error + (bool \<times> 'a cstate)" where
  "consolidate_loop [] st = Inr (True, st)"
| "consolidate_loop (iresults # rest) st =
     (if fst iresults = False then Inr (False, st)
      else case snd iresults of
        Msg [] \<Rightarrow> Inl IndexError
      | Msg (c # cs) \<Rightarrow>
          consolidate_loop rest (st\<lparr>cworld := print ''unknown'' (cworld st)\<rparr>)
      | MDpair NotNumpy var_name \<Rightarrow>
          consolidate_loop rest (st\<lparr>cworld := print ''unknown'' (cworld st)\<rparr>)
      | MDpair (Numpy x) var_name \<Rightarrow>
          (if first st then
             consolidate_loop rest
               (st\<lparr>nresults := Some x, nnames := map Name var_name, first := False,
                    cworld := print ''merge arrays'' (cworld st)\<rparr>)
           else case nresults st of
             None \<Rightarrow> Inl ValueError
           | Some acc \<Rightarrow>
               (case vstack acc x of
                  Inl e \<Rightarrow> Inl e
                | Inr stacked \<Rightarrow>
                    consolidate_loop rest
                      (st\<lparr>nresults := Some stacked, nnames := nnames st @ [Names var_name],
                           cworld := print ''merge arrays'' (cworld st)\<rparr>))))"

text \<open>
  \<^verbatim>\<open>consolidate(results, nobj)\<close>. After the loop, \<^verbatim>\<open>result\<close> is assigned only
  \<^verbatim>\<open>if success\<close>; the failed chunk's message went to \<^verbatim>\<open>results\<close>. The
  \<^verbatim>\<open>return True, result\<close> that follows therefore reads an unbound local variable
  whenever the loop was left by \<^verbatim>\<open>break\<close>. \<^verbatim>\<open>nobj\<close> is not used.
\<close>

definition consolidate ::
  "'a outcome list \<Rightarrow> nat list \<Rightarrow> world \<Rightarrow>
     py_error + ((bool \<times> 'a ndarray option \<times> name_entry list) \<times> world)" where
  "consolidate results nobj w =
     (case consolidate_loop results
             \<lparr>first = True, nresults = None, nnames = [], cworld = w\<rparr> of
        Inl e \<Rightarrow> Inl e
      | Inr (success, st) \<Rightarrow>
          (if success then Inr ((True, nresults st, nnames st), cworld st)
           else Inl UnboundLocalError))"

section \<open>The control object and the libraries \<^verbatim>\<open>Idata\<close> calls\<close>

text \<open>
  The attributes of \<^verbatim>\<open>self.control\<close> that the methods below read. A method name that
  is not set is \<open>None\<close>; \<^verbatim>\<open>convert3D_method\<close> and \<^verbatim>\<open>MD\<close> are collections of names.
\<close>

record control =
  SDFile_name :: string
  SDFile_activity :: string
  SDFile_experimental :: string
  chemstand_method :: "string option"
  ionize_method :: "string option"
  convert3D_method :: "string list option"
  MD :: "string list"

text \<open>
  What \<^verbatim>\<open>standardise.run\<close> does on a mol block: it returns the parent structure, raises
  \<^verbatim>\<open>StandardiseException\<close> (with its \<^verbatim>\<open>name\<close>), or raises something else.
\<close>

datatype std_result = Standardised string | StandardiseException string | OtherException

text \<open>
  The code outside the repository's sources is a parameter: RDKit (\<^verbatim>\<open>Chem\<close>), the
  standardiser, \<^verbatim>\<open>sdfileutils.getName\<close>, the descriptor methods of \<^verbatim>\<open>_compute_md\<close>, the
  embedding of \<^verbatim>\<open>_convert_3d\<close>, Python's \<^verbatim>\<open>float\<close> and numpy's conversion of a string to
  a \<^verbatim>\<open>float64\<close>. \<open>'mol\<close> is RDKit's molecule, \<open>'f\<close> the floating-point numbers and
  \<open>'a\<close> the entries of a feature matrix. \<open>parse_sdf\<close> gives, for the text of a file, what
  iterating \<^verbatim>\<open>Chem.SDMolSupplier\<close> yields: a molecule, or \<open>None\<close> for a record RDKit
  cannot read.
\<close>

record ('mol, 'f, 'a) externals =
  parse_sdf :: "string \<Rightarrow> 'mol option list"
  MolToMolBlock :: "'mol \<Rightarrow> string"
  HasProp :: "'mol \<Rightarrow> string \<Rightarrow> bool"
  GetProp :: "'mol \<Rightarrow> string \<Rightarrow> string"
  getName :: "'mol \<Rightarrow> nat \<Rightarrow> string \<Rightarrow> string"
  standardise_run :: "string \<Rightarrow> std_result"
  py_float :: "string \<Rightarrow> 'f option"
  np_float :: "string \<Rightarrow> 'f option"
  np_nan :: "'f"
  ETKDG :: "string \<Rightarrow> world \<Rightarrow> (bool \<times> string) \<times> world"
  RDKit_properties :: "string \<Rightarrow> world \<Rightarrow> 'a outcome"
  RDKit_descriptors :: "string \<Rightarrow> world \<Rightarrow> 'a outcome"
  repr_md :: "'a xmatrix \<Rightarrow> string list \<Rightarrow> string"

text \<open>\<^verbatim>\<open>Chem.SDMolSupplier(ifile)\<close> raises when the file cannot be opened.\<close>

definition SDMolSupplier ::
  "('mol, 'f, 'a) externals \<Rightarrow> world \<Rightarrow> string \<Rightarrow> py_error + 'mol option list" where
  "SDMolSupplier ext w ifile =
     (case files w ifile of None \<Rightarrow> Inl OSError | Some text \<Rightarrow> Inr (parse_sdf ext text))"

subsection \<open>\<^verbatim>\<open>os.path.splitext\<close>\<close>

text \<open>\<^verbatim>\<open>s.rfind(c)\<close>: the last index of \<open>c\<close> in \<open>s\<close>, or \<open>-1\<close>.\<close>

definition rfind :: "string \<Rightarrow> char \<Rightarrow> int" where
  "rfind s c =
     (case filter (\<lambda>i. s ! i = c) (rev [0..<length s]) of [] \<Rightarrow> - 1 | i # _ \<Rightarrow> int i)"

text \<open>
  On a POSIX path: the extension starts at the last dot of the last path component, unless
  that component has only dots before it.
\<close>

definition splitext :: "string \<Rightarrow> string \<times> string" where
  "splitext path =
     (let sepIndex = rfind path CHR ''/''; dotIndex = rfind path CHR ''.'' in
      if dotIndex > sepIndex \<and>
         list_ex (\<lambda>i. path ! i \<noteq> CHR ''.'') [nat (sepIndex + 1)..<nat dotIndex]
      then (take (nat dotIndex) path, drop (nat dotIndex) path)
      else (path, []))"

text \<open>The output file of \<^verbatim>\<open>normalize\<close>: \<^verbatim>\<open>filename + '_std' + fileext\<close>.\<close>

definition std_path :: "string \<Rightarrow> string" where
  "std_path ifile = (case splitext ifile of (filename, fileext) \<Rightarrow> filename @ ''_std'' @ fileext)"

section \<open>\<^verbatim>\<open>Idata.extractAnotations\<close>\<close>

text \<open>The three lists while the loop over the supplier runs.\<close>

fun extract_loop ::
  "('mol, 'f, 'a) externals \<Rightarrow> control \<Rightarrow> nat \<Rightarrow> 'mol option list \<Rightarrow>
     string list \<times> 'f option list \<times> string option list \<Rightarrow>
     string list \<times> 'f option list \<times> string option list" where
  "extract_loop ext ctl i [] acc = acc"
| "extract_loop ext ctl i (None # suppl) acc = extract_loop ext ctl (i + 1) suppl acc"
| "extract_loop ext ctl i (Some mol # suppl) (obj_nam, obj_bio, obj_exp) =
     (let name = getName ext mol i (SDFile_name ctl);
          activity_num =
            (if HasProp ext mol (SDFile_activity ctl)
             then py_float ext (GetProp ext mol (SDFile_activity ctl)) else None);
          exp =
            (if HasProp ext mol (SDFile_experimental ctl)
             then Some (GetProp ext mol (SDFile_experimental ctl)) else None)
      in extract_loop ext ctl (i + 1) suppl
           (obj_nam @ [name], obj_bio @ [activity_num], obj_exp @ [exp]))"

text \<open>
  \<^verbatim>\<open>np.array(xs, dtype=np.float64)\<close> on a list of floats and \<^verbatim>\<open>None\<close>: \<^verbatim>\<open>None\<close>
  becomes \<^verbatim>\<open>nan\<close>.
\<close>

definition np_array_float :: "('mol, 'f, 'a) externals \<Rightarrow> 'f option list \<Rightarrow> 'f list" where
  "np_array_float ext xs = map (\<lambda>x. case x of None \<Rightarrow> np_nan ext | Some v \<Rightarrow> v) xs"

text \<open>
  The same on a list of strings and \<^verbatim>\<open>None\<close>: a string that is no number raises
  \<^verbatim>\<open>ValueError\<close>.
\<close>

fun np_array_str :: "('mol, 'f, 'a) externals \<Rightarrow> string option list \<Rightarrow> py_error + 'f list" where
  "np_array_str ext [] = Inr []"
| "np_array_str ext (x # xs) =
     (case (case x of None \<Rightarrow> Some (np_nan ext) | Some s \<Rightarrow> np_float ext s) of
        None \<Rightarrow> Inl ValueError
      | Some v \<Rightarrow> (case np_array_str ext xs of Inl e \<Rightarrow> Inl e | Inr vs \<Rightarrow> Inr (v # vs)))"

definition extractAnotations ::
  "('mol, 'f, 'a) externals \<Rightarrow> control \<Rightarrow> world \<Rightarrow> string \<Rightarrow>
     py_error + (string list \<times> 'f list \<times> 'f list)" where
  "extractAnotations ext ctl w ifile =
     (case SDMolSupplier ext w ifile of
        Inl e \<Rightarrow> Inl e
      | Inr suppl \<Rightarrow>
          (case extract_loop ext ctl 0 suppl ([], [], []) of
             (obj_nam, obj_bio, obj_exp) \<Rightarrow>
               (case np_array_str ext obj_exp of
                  Inl e \<Rightarrow> Inl e
                | Inr exp_array \<Rightarrow> Inr (obj_nam, np_array_float ext obj_bio, exp_array))))"

section \<open>\<^verbatim>\<open>Idata.normalize\<close>\<close>

text \<open>
  The local variables of the loop over the supplier. \<^verbatim>\<open>parent\<close> is \<open>None\<close> as long as
  nothing has been assigned to it.
\<close>

record nstate =
  mcount :: nat
  merror :: nat
  parent :: "string option"
  nworld :: world

text \<open>How the loop ends: by an exception, by a \<^verbatim>\<open>return\<close> inside it, or at the end of the supplier.\<close>

datatype nexit = Raised py_error | Returned "bool \<times> string" world | Completed nstate

definition flameID :: "nat \<Rightarrow> string" where
  "flameID n = ''fl'' @ fmt_d10 n"

text \<open>
  The \<^verbatim>\<open>try\<close> block around \<^verbatim>\<open>standardise.run\<close>: the new value of \<^verbatim>\<open>parent\<close>, or the
  tuple that \<^verbatim>\<open>normalize\<close> returns at once.
\<close>

definition standardise_try ::
  "('mol, 'f, 'a) externals \<Rightarrow> 'mol \<Rightarrow> (bool \<times> string) + string" where
  "standardise_try ext m =
     (case standardise_run ext (MolToMolBlock ext m) of
        Standardised s \<Rightarrow> Inr s
      | StandardiseException name \<Rightarrow>
          (if name = ''no_non_salt'' then Inr (MolToMolBlock ext m) else Inl (False, name))
      | OtherException \<Rightarrow> Inl (False, ''Unknown standardiser error''))"

text \<open>
  \<^verbatim>\<open>parent\<close> is assigned only under \<^verbatim>\<open>chemstand_method == 'standardize'\<close>;
  \<^verbatim>\<open>fo.write(parent)\<close> reads it in any case.
\<close>

fun normalize_loop ::
  "('mol, 'f, 'a) externals \<Rightarrow> control \<Rightarrow> string \<Rightarrow> 'mol option list \<Rightarrow> nstate \<Rightarrow> nexit" where
  "normalize_loop ext ctl ofile [] st = Completed st"
| "normalize_loop ext ctl ofile (None # suppl) st =
     normalize_loop ext ctl ofile suppl
       (st\<lparr>nworld := print (''ERROR: unable to process molecule #'' @ str_nat (merror st)) (nworld st),
           merror := merror st + 1\<rparr>)"
| "normalize_loop ext ctl ofile (Some m # suppl) st =
     (case (if chemstand_method ctl = Some ''standardize''
            then map_sum id Some (standardise_try ext m) else Inr (parent st)) of
        Inl r \<Rightarrow> Returned r (nworld st)
      | Inr None \<Rightarrow> Raised UnboundLocalError
      | Inr (Some par) \<Rightarrow>
          normalize_loop ext ctl ofile suppl
            (st\<lparr>parent := Some par,
                nworld :=
                  fo_write ofile ''$$$$\<newline>''
                    (fo_write ofile (''>  <flameID>\<newline>'' @ flameID (mcount st) @ ''\<newline>\<newline>'')
                       (fo_write ofile par (nworld st))),
                mcount := mcount st + 1\<rparr>))"

text \<open>
  \<^verbatim>\<open>normalize(ifile, clean)\<close>. Only the construction of the supplier is inside
  \<^verbatim>\<open>try\<close>. The \<^verbatim>\<open>with\<close> block closes the output file however it is left, and the
  input file is removed after it, an \<^verbatim>\<open>OSError\<close> of \<^verbatim>\<open>os.remove\<close> being passed over.
\<close>

definition normalize ::
  "('mol, 'f, 'a) externals \<Rightarrow> control \<Rightarrow> string \<Rightarrow> bool \<Rightarrow> world \<Rightarrow>
     py_error + ((bool \<times> string) \<times> world)" where
  "normalize ext ctl ifile clean w =
     (case SDMolSupplier ext w ifile of
        Inl e \<Rightarrow>
          Inr ((False, ''Error at processing input file for standardizing structures''), w)
      | Inr suppl \<Rightarrow>
          (let ofile = std_path ifile in
           case normalize_loop ext ctl ofile suppl
                  \<lparr>mcount = 0, merror = 0, parent = None, nworld = open_w ofile w\<rparr> of
             Raised e \<Rightarrow> Inl e
           | Returned r w1 \<Rightarrow> Inr (r, fo_close ofile w1)
           | Completed st \<Rightarrow>
               (let w1 = fo_close ofile (nworld st);
                    w2 = (if clean
                          then (case os_remove ifile w1 of Inl e \<Rightarrow> w1 | Inr w' \<Rightarrow> w')
                          else w1)
                in Inr ((True, ofile), w2))))"

section \<open>The other stages and \<^verbatim>\<open>Idata.workflow\<close>\<close>

definition ionize :: "string \<Rightarrow> bool \<times> string" where
  "ionize ifile = (True, ifile)"

text \<open>
  \<^verbatim>\<open>not self.control.convert3D_method\<close> holds for \<open>None\<close> and for the empty collection.
\<close>

definition convert3D ::
  "('mol, 'f, 'a) externals \<Rightarrow> control \<Rightarrow> string \<Rightarrow> world \<Rightarrow> (bool \<times> string) \<times> world" where
  "convert3D ext ctl ifile w =
     (case convert3D_method ctl of
        None \<Rightarrow> ((True, ifile), w)
      | Some [] \<Rightarrow> ((True, ifile), w)
      | Some (x # xs) \<Rightarrow>
          (if ''ETKDG'' \<in> set (x # xs) then ETKDG ext ifile w
           else ((False, ''not converted to 3D''), w)))"

text \<open>The method of the class itself; a subclass is meant to replace it.\<close>

definition computeMD_custom :: "string \<Rightarrow> 'a outcome" where
  "computeMD_custom ifile = (False, Msg ''not implemented'')"

text \<open>
  One of the three \<^verbatim>\<open>if\<close> blocks of \<^verbatim>\<open>computeMD\<close>, on the pair of \<^verbatim>\<open>results_all\<close>
  and the variables \<^verbatim>\<open>success, results\<close> (\<open>None\<close> while they are unbound): when the
  method is configured it is called, \<^verbatim>\<open>success, results\<close> are overwritten, and the results
  are appended to \<^verbatim>\<open>results_all\<close> if it succeeded.
\<close>

definition md_block ::
  "bool \<Rightarrow> 'a outcome \<Rightarrow> 'a payload list \<times> 'a outcome option \<Rightarrow>
     'a payload list \<times> 'a outcome option" where
  "md_block configured r s =
     (if configured
      then (if fst r then fst s @ [snd r] else fst s, Some r)
      else s)"

text \<open>\<^verbatim>\<open>results_all\<close> and \<^verbatim>\<open>success, results\<close> after the three blocks.\<close>

definition computeMD_blocks ::
  "('mol, 'f, 'a) externals \<Rightarrow> control \<Rightarrow> string \<Rightarrow> world \<Rightarrow>
     'a payload list \<times> 'a outcome option" where
  "computeMD_blocks ext ctl ifile w =
     md_block (''custom'' \<in> set (MD ctl)) (computeMD_custom ifile)
       (md_block (''RDKit_md'' \<in> set (MD ctl)) (RDKit_descriptors ext ifile w)
          (md_block (''RDKit_properties'' \<in> set (MD ctl)) (RDKit_properties ext ifile w)
             ([], None)))"

text \<open>
  \<^verbatim>\<open>computeMD\<close> returns \<^verbatim>\<open>success, results\<close>, not \<^verbatim>\<open>results_all\<close>. When no method was
  called the two variables are unbound, \<^verbatim>\<open>results_all\<close> is empty and they are set to the
  failure.
\<close>

definition computeMD ::
  "('mol, 'f, 'a) externals \<Rightarrow> control \<Rightarrow> string \<Rightarrow> world \<Rightarrow> 'a outcome" where
  "computeMD ext ctl ifile w =
     (case computeMD_blocks ext ctl ifile w of
        (results_all, last_result) \<Rightarrow>
          (if length results_all = 0 then (False, Msg ''undefined MD'')
           else case last_result of
                  None \<Rightarrow> (False, Msg ''undefined MD'')
                | Some r \<Rightarrow> r))"

text \<open>\<^verbatim>\<open>str(results)\<close> for the results of a descriptor method.\<close>

definition str_payload :: "('mol, 'f, 'a) externals \<Rightarrow> 'a payload \<Rightarrow> string" where
  "str_payload ext r = (case r of Msg s \<Rightarrow> s | MDpair x names \<Rightarrow> repr_md ext x names)"

text \<open>
  \<^verbatim>\<open>workflow(ifile)\<close>. After a failed \<^verbatim>\<open>normalize\<close> the message is stored in
  \<^verbatim>\<open>results\<close> and the method goes on with \<^verbatim>\<open>tfile = ifile\<close>; the three later stages
  return at once when they fail.
\<close>

definition workflow ::
  "('mol, 'f, 'a) externals \<Rightarrow> control \<Rightarrow> string \<Rightarrow> world \<Rightarrow>
     py_error + ('a outcome \<times> world)" where
  "workflow ext ctl ifile w =
     (case normalize ext ctl ifile False w of
        Inl e \<Rightarrow> Inl e
      | Inr ((success, results), w1) \<Rightarrow>
          (let tfile1 = (if \<not> success then ifile else results) in
           case (if ionize_method ctl \<noteq> None
                 then (case ionize tfile1 of
                         (success, results) \<Rightarrow>
                           if \<not> success
                           then Inl (''input error: molecule ionization error at position: '' @ results)
                           else Inr results)
                 else Inr tfile1) of
             Inl msg \<Rightarrow> Inr ((False, Msg msg), w1)
           | Inr tfile2 \<Rightarrow>
               (case (if convert3D_method ctl \<noteq> None
                      then (case convert3D ext ctl tfile2 w1 of
                              ((success, results), w2) \<Rightarrow>
                                if \<not> success
                                then (Inl (''input error: 3D conversion error at position: '' @ results), w2)
                                else (Inr results, w2))
                      else (Inr tfile2, w1)) of
                  (Inl msg, w2) \<Rightarrow> Inr ((False, Msg msg), w2)
                | (Inr tfile3, w2) \<Rightarrow>
                    (case computeMD ext ctl tfile3 w2 of
                       (success, results) \<Rightarrow>
                         if \<not> success
                         then Inr ((False, Msg (''input error: failed computing MD: '' @ str_payload ext results)), w2)
                         else Inr ((success, results), w2)))))"

section \<open>\<^verbatim>\<open>Parameters\<close>: the objects of a configuration\<close>

text \<open>
  \<^verbatim>\<open>pickle.dumps\<close> writes an object it has met before as a reference to the first
  occurrence, so the stamp depends on which objects of a configuration are one and the
  same, not only on their values. Strings, lists and dictionaries therefore carry their
  identity: \<open>Loaded n\<close> for an object that \<^verbatim>\<open>yaml.safe_load\<close> put into \<^verbatim>\<open>self.p\<close>,
  and a name of its own for every object that the methods below make: the string made by
  \<^verbatim>\<open>str\<close> and the string made by \<^verbatim>\<open>+\<close> in the \<open>n\<close>-th turn of the loop of
  \<^verbatim>\<open>idataHash\<close>, the dictionary of \<^verbatim>\<open>getDict\<close>, the two lists of \<^verbatim>\<open>idataHash\<close>, a
  string constant of the program text, and the string of one character that indexing or
  iterating a string gives.
\<close>

datatype oid =
    Loaded nat | StrOf nat | Concat nat | NewDict | MdList | ParamsList
  | Literal string | CharOf char

text \<open>
  What \<^verbatim>\<open>yaml.safe_load\<close> puts into \<^verbatim>\<open>self.p\<close>: \<^verbatim>\<open>None\<close>, booleans, integers,
  floats, strings, lists, and dictionaries with string keys. A dictionary is the list of
  its items in iteration order, each key a string object. \<open>'f\<close> is the type of the
  floats. Two objects with the same identity are the same object.
\<close>

datatype 'f pyobj =
    PNone | PBool bool | PInt int | PFloat 'f | PStr oid string
  | PList oid "'f pyobj list" | PDict oid "((oid \<times> string) \<times> 'f pyobj) list"

text \<open>
  Python's own part: how a float prints, the float of an integer (\<open>None\<close> when it
  overflows), \<^verbatim>\<open>1.0 - x\<close> on floats, and the \<^verbatim>\<open>repr\<close> of a string.
\<close>

record 'f pyenv =
  float_str :: "'f \<Rightarrow> string"
  float_of_int :: "int \<Rightarrow> 'f option"
  one_minus :: "'f \<Rightarrow> 'f"
  str_repr :: "string \<Rightarrow> string"

definition str_int :: "int \<Rightarrow> string" where
  "str_int i = (if i < 0 then ''-'' @ str_nat (nat (- i)) else str_nat (nat i))"

fun join :: "string \<Rightarrow> string list \<Rightarrow> string" where
  "join sep [] = []"
| "join sep [x] = x"
| "join sep (x # y # ys) = x @ sep @ join sep (y # ys)"

fun py_repr :: "'f pyenv \<Rightarrow> 'f pyobj \<Rightarrow> string" where
  "py_repr env PNone = ''None''"
| "py_repr env (PBool b) = (if b then ''True'' else ''False'')"
| "py_repr env (PInt i) = str_int i"
| "py_repr env (PFloat x) = float_str env x"
| "py_repr env (PStr a s) = str_repr env s"
| "py_repr env (PList a xs) = ''['' @ join '', '' (map (py_repr env) xs) @ '']''"
| "py_repr env (PDict a d) =
     ''{'' @ join '', ''
              (map (\<lambda>kv. str_repr env (snd (fst kv)) @ '': '' @ py_repr env (snd kv)) d) @ ''}''"

text \<open>
  \<^verbatim>\<open>str(x)\<close> as text: the string itself for a string, the \<^verbatim>\<open>repr\<close> otherwise.
\<close>

definition py_str :: "'f pyenv \<Rightarrow> 'f pyobj \<Rightarrow> string" where
  "py_str env x = (case x of PStr a s \<Rightarrow> s | _ \<Rightarrow> py_repr env x)"

text \<open>
  \<^verbatim>\<open>str(x)\<close> as an object, in turn \<open>n\<close> of the loop: a string is returned as it is,
  anything else gives a string that is no object of the configuration (a new one, or the
  interpreter's own for a boolean), named after the turn.
\<close>

definition str_object :: "'f pyenv \<Rightarrow> nat \<Rightarrow> 'f pyobj \<Rightarrow> oid \<times> string" where
  "str_object env n x = (case x of PStr a s \<Rightarrow> (a, s) | _ \<Rightarrow> (StrOf n, py_repr env x))"

text \<open>\<open>t\<close> occurs in \<open>s\<close> as a substring.\<close>

fun is_substr :: "string \<Rightarrow> string \<Rightarrow> bool" where
  "is_substr t [] = (t = [])"
| "is_substr t (c # s) = (take (length t) (c # s) = t \<or> is_substr t s)"

text \<open>The string \<open>k\<close> compares equal to the object.\<close>

definition eq_str :: "string \<Rightarrow> 'f pyobj \<Rightarrow> bool" where
  "eq_str k x = (case x of PStr a s \<Rightarrow> s = k | _ \<Rightarrow> False)"

text \<open>The value stored in a dictionary under the key \<open>k\<close>.\<close>

definition dict_get :: "((oid \<times> string) \<times> 'f pyobj) list \<Rightarrow> string \<Rightarrow> 'f pyobj option" where
  "dict_get d k = map_of (map (\<lambda>kv. (snd (fst kv), snd kv)) d) k"

text \<open>
  \<^verbatim>\<open>d[k] = x\<close>: the value of an existing key is replaced, a new key goes to the end.
\<close>

fun dict_set ::
  "((oid \<times> string) \<times> 'f pyobj) list \<Rightarrow> oid \<times> string \<Rightarrow> 'f pyobj \<Rightarrow>
     ((oid \<times> string) \<times> 'f pyobj) list" where
  "dict_set [] k x = [(k, x)]"
| "dict_set ((k', y) # d) k x =
     (if snd k' = snd k then (k', x) # d else (k', y) # dict_set d k x)"

text \<open>
  \<^verbatim>\<open>k in x\<close> for a string \<open>k\<close>: a key of a dictionary, an element of a list, a
  substring of a string; the other values are not iterable.
\<close>

definition py_contains :: "string \<Rightarrow> 'f pyobj \<Rightarrow> py_error + bool" where
  "py_contains k x =
     (case x of
        PDict a d \<Rightarrow> Inr (k \<in> set (map (\<lambda>kv. snd (fst kv)) d))
      | PList a xs \<Rightarrow> Inr (list_ex (eq_str k) xs)
      | PStr a s \<Rightarrow> Inr (is_substr k s)
      | _ \<Rightarrow> Inl TypeError)"

text \<open>\<^verbatim>\<open>xs[i]\<close> on a sequence: a negative index counts from the end.\<close>

definition py_index :: "'b list \<Rightarrow> int \<Rightarrow> py_error + 'b" where
  "py_index xs i =
     (if 0 \<le> i \<and> i < int (length xs) then Inr (xs ! nat i)
      else if i < 0 \<and> - int (length xs) \<le> i then Inr (xs ! nat (int (length xs) + i))
      else Inl IndexError)"

text \<open>
  \<^verbatim>\<open>x[key]\<close>. A dictionary (its keys are strings) has no key that is not a string, and a
  list or a dictionary is no key at all; a list and a string take integers (a boolean is
  one).
\<close>

definition subscript :: "'f pyobj \<Rightarrow> 'f pyobj \<Rightarrow> py_error + 'f pyobj" where
  "subscript x key =
     (case x of
        PDict a d \<Rightarrow>
          (case key of
             PStr b k \<Rightarrow> (case dict_get d k of None \<Rightarrow> Inl KeyError | Some v \<Rightarrow> Inr v)
           | PList _ _ \<Rightarrow> Inl TypeError
           | PDict _ _ \<Rightarrow> Inl TypeError
           | _ \<Rightarrow> Inl KeyError)
      | PList a xs \<Rightarrow>
          (case key of
             PInt i \<Rightarrow> py_index xs i
           | PBool b \<Rightarrow> py_index xs (if b then 1 else 0)
           | _ \<Rightarrow> Inl TypeError)
      | PStr a s \<Rightarrow>
          (case key of
             PInt i \<Rightarrow> map_sum id (\<lambda>c. PStr (CharOf c) [c]) (py_index s i)
           | PBool b \<Rightarrow> map_sum id (\<lambda>c. PStr (CharOf c) [c]) (py_index s (if b then 1 else 0))
           | _ \<Rightarrow> Inl TypeError)
      | _ \<Rightarrow> Inl TypeError)"

text \<open>The string constant \<open>k\<close> of the program text.\<close>

definition literal :: "string \<Rightarrow> 'f pyobj" where
  "literal k = PStr (Literal k) k"

text \<open>
  What \<^verbatim>\<open>for key in x\<close> runs through: the key objects of a dictionary, the elements of a
  list, the characters of a string.
\<close>

definition py_iter :: "'f pyobj \<Rightarrow> py_error + 'f pyobj list" where
  "py_iter x =
     (case x of
        PDict a d \<Rightarrow> Inr (map (\<lambda>kv. PStr (fst (fst kv)) (snd (fst kv))) d)
      | PList a xs \<Rightarrow> Inr xs
      | PStr a s \<Rightarrow> Inr (map (\<lambda>c. PStr (CharOf c) [c]) s)
      | _ \<Rightarrow> Inl TypeError)"

text \<open>
  \<^verbatim>\<open>key + s\<close> for a string object \<open>s\<close>, in turn \<open>n\<close> of the loop. With an empty left
  operand the result is the right operand itself, with an empty right operand the left
  one; otherwise it is a new string.
\<close>

definition add_str :: "nat \<Rightarrow> 'f pyobj \<Rightarrow> oid \<times> string \<Rightarrow> py_error + (oid \<times> string)" where
  "add_str n key s =
     (case key of
        PStr a k \<Rightarrow>
          Inr (if k = [] then s else if snd s = [] then (a, k) else (Concat n, k @ snd s))
      | _ \<Rightarrow> Inl TypeError)"

text \<open>\<^verbatim>\<open>1.0 - temp\<close>.\<close>

definition rsub_one :: "'f pyenv \<Rightarrow> 'f pyobj \<Rightarrow> py_error + 'f pyobj" where
  "rsub_one env temp =
     (case temp of
        PFloat x \<Rightarrow> Inr (PFloat (one_minus env x))
      | PInt i \<Rightarrow>
          (case float_of_int env i of
             None \<Rightarrow> Inl OverflowError | Some x \<Rightarrow> Inr (PFloat (one_minus env x)))
      | PBool b \<Rightarrow>
          (case float_of_int env (if b then 1 else 0) of
             None \<Rightarrow> Inl OverflowError | Some x \<Rightarrow> Inr (PFloat (one_minus env x)))
      | _ \<Rightarrow> Inl TypeError)"

section \<open>\<^verbatim>\<open>Parameters.getVal\<close>, \<^verbatim>\<open>getDict\<close> and \<^verbatim>\<open>idataHash\<close>\<close>

text \<open>\<^verbatim>\<open>self.p\<close> is looked up by key only, so its own keys are plain strings here.\<close>

record 'f parameters =
  extended :: bool
  p :: "(string \<times> 'f pyobj) list"

function getVal :: "'f pyenv \<Rightarrow> 'f parameters \<Rightarrow> string \<Rightarrow> py_error + 'f pyobj" where
  "getVal env ps key =
     (case map_of (p ps) key of
        None \<Rightarrow>
          (if key = ''conformalConfidence'' then
             (case getVal env ps ''conformalSignificance'' of
                Inl e \<Rightarrow> Inl e
              | Inr PNone \<Rightarrow> Inr PNone
              | Inr temp \<Rightarrow> rsub_one env temp)
           else Inr PNone)
      | Some entry \<Rightarrow>
          (if \<not> extended ps then Inr entry
           else case py_contains ''value'' entry of
                  Inl e \<Rightarrow> Inl e
                | Inr True \<Rightarrow> subscript entry (literal ''value'')
                | Inr False \<Rightarrow> Inr PNone))"
  by pat_completeness auto
termination
  by (relation "measure (\<lambda>(env, ps, key). if key = ''conformalConfidence'' then 1 else 0)") auto

declare getVal.simps [simp del]

text \<open>The loop of \<^verbatim>\<open>getDict\<close> over \<^verbatim>\<open>element.items()\<close>, filling \<^verbatim>\<open>d\<close>.\<close>

fun getDict_loop ::
  "((oid \<times> string) \<times> 'f pyobj) list \<Rightarrow> ((oid \<times> string) \<times> 'f pyobj) list \<Rightarrow>
     py_error + ((oid \<times> string) \<times> 'f pyobj) list" where
  "getDict_loop [] d = Inr d"
| "getDict_loop ((k, v) # rest) d =
     (case py_contains ''value'' v of
        Inl e \<Rightarrow> Inl e
      | Inr False \<Rightarrow> getDict_loop rest d
      | Inr True \<Rightarrow>
          (case subscript v (literal ''value'') of
             Inl e \<Rightarrow> Inl e
           | Inr x \<Rightarrow> getDict_loop rest (dict_set d k x)))"

definition getDict :: "'f parameters \<Rightarrow> string \<Rightarrow> py_error + 'f pyobj" where
  "getDict ps key =
     (case map_of (p ps) key of
        None \<Rightarrow> Inr (PDict NewDict [])
      | Some entry \<Rightarrow>
          (if \<not> extended ps then Inr entry
           else case subscript entry (literal ''value'') of
                  Inl e \<Rightarrow> Inl e
                | Inr element \<Rightarrow>
                    (case element of
                       PDict a items \<Rightarrow> map_sum id (PDict NewDict) (getDict_loop items [])
                     | _ \<Rightarrow> Inr (PDict NewDict []))))"

definition keylist :: "string list" where
  "keylist =
     [''model_path'', ''version'', ''SDFile_name'', ''SDFile_activity'', ''SDFile_experimental'',
      ''normalize_method'', ''ionize_method'', ''convert3D_method'',
      ''computeMD_method'', ''TSV_varnames'', ''TSV_objnames'',
      ''TSV_activity'', ''input_type'', ''endpoint'']"

text \<open>The first loop of \<^verbatim>\<open>idataHash\<close>: \<^verbatim>\<open>getVal\<close> of every key of the list.\<close>

fun getVals :: "'f pyenv \<Rightarrow> 'f parameters \<Rightarrow> string list \<Rightarrow> py_error + 'f pyobj list" where
  "getVals env ps [] = Inr []"
| "getVals env ps (i # rest) =
     (case getVal env ps i of
        Inl e \<Rightarrow> Inl e
      | Inr v \<Rightarrow> (case getVals env ps rest of Inl e \<Rightarrow> Inl e | Inr vs \<Rightarrow> Inr (v # vs)))"

text \<open>
  The second loop, from its turn \<open>n\<close> on: \<^verbatim>\<open>key + str(md_params[key])\<close> for every key,
  each a string object.
\<close>

fun md_loop ::
  "'f pyenv \<Rightarrow> 'f pyobj \<Rightarrow> nat \<Rightarrow> 'f pyobj list \<Rightarrow> py_error + (oid \<times> string) list" where
  "md_loop env md_params n [] = Inr []"
| "md_loop env md_params n (key # rest) =
     (case subscript md_params key of
        Inl e \<Rightarrow> Inl e
      | Inr v \<Rightarrow>
          (case add_str n key (str_object env n v) of
             Inl e \<Rightarrow> Inl e
           | Inr s \<Rightarrow>
               (case md_loop env md_params (Suc n) rest of
                  Inl e \<Rightarrow> Inl e
                | Inr ss \<Rightarrow> Inr (s # ss))))"

text \<open>
  \<^verbatim>\<open>idata_params\<close> as it is handed to \<^verbatim>\<open>pickle.dumps\<close>: the values of the keys, then
  the sorted list \<^verbatim>\<open>md_list\<close> as the last element. \<^verbatim>\<open>md_list.sort()\<close> orders the string
  objects by their text, character by character, and leaves strings of equal text in the
  order they had.
\<close>

definition idata_params :: "'f pyenv \<Rightarrow> 'f parameters \<Rightarrow> py_error + 'f pyobj list" where
  "idata_params env ps =
     (case getVals env ps keylist of
        Inl e \<Rightarrow> Inl e
      | Inr vals \<Rightarrow>
          (case getDict ps ''MD_settings'' of
             Inl e \<Rightarrow> Inl e
           | Inr md_params \<Rightarrow>
               (case py_iter md_params of
                  Inl e \<Rightarrow> Inl e
                | Inr keys \<Rightarrow>
                    (case md_loop env md_params 0 keys of
                       Inl e \<Rightarrow> Inl e
                     | Inr md_list \<Rightarrow>
                         Inr (vals @
                              [PList MdList
                                 (map (\<lambda>s. PStr (fst s) (snd s)) (sort_key snd md_list))])))))"

subsection \<open>\<^verbatim>\<open>pickle.dumps\<close>\<close>

text \<open>
  What the pickler writes, up to the encoding in bytes: the value, with \<open>KGet i\<close> in the
  place of a string, list or dictionary that was written before and is \<open>i\<close>-th in the
  memo. \<^verbatim>\<open>None\<close>, booleans, integers and floats are written out every time.
\<close>

datatype 'f pickled =
    KNone | KBool bool | KInt int | KFloat 'f | KStr string
  | KList "'f pickled list" | KDict "('f pickled \<times> 'f pickled) list" | KGet nat

text \<open>The place of an object in the memo, the list of the objects written so far.\<close>

fun memo_index :: "oid list \<Rightarrow> oid \<Rightarrow> nat option" where
  "memo_index [] a = None"
| "memo_index (b # memo) a =
     (if b = a then Some 0 else map_option Suc (memo_index memo a))"

text \<open>
  The pickler, with the memo before and after. A string is put into the memo once it is
  written, a list and a dictionary before their elements are.
\<close>

fun pickle_obj :: "oid list \<Rightarrow> 'f pyobj \<Rightarrow> 'f pickled \<times> oid list"
  and pickle_list :: "oid list \<Rightarrow> 'f pyobj list \<Rightarrow> 'f pickled list \<times> oid list"
  and pickle_items ::
    "oid list \<Rightarrow> ((oid \<times> string) \<times> 'f pyobj) list \<Rightarrow> ('f pickled \<times> 'f pickled) list \<times> oid list" where
  "pickle_obj memo PNone = (KNone, memo)"
| "pickle_obj memo (PBool b) = (KBool b, memo)"
| "pickle_obj memo (PInt i) = (KInt i, memo)"
| "pickle_obj memo (PFloat x) = (KFloat x, memo)"
| "pickle_obj memo (PStr a s) =
     (case memo_index memo a of Some i \<Rightarrow> (KGet i, memo) | None \<Rightarrow> (KStr s, memo @ [a]))"
| "pickle_obj memo (PList a xs) =
     (case memo_index memo a of
        Some i \<Rightarrow> (KGet i, memo)
      | None \<Rightarrow> (case pickle_list (memo @ [a]) xs of (ks, memo') \<Rightarrow> (KList ks, memo')))"
| "pickle_obj memo (PDict a d) =
     (case memo_index memo a of
        Some i \<Rightarrow> (KGet i, memo)
      | None \<Rightarrow> (case pickle_items (memo @ [a]) d of (ks, memo') \<Rightarrow> (KDict ks, memo')))"
| "pickle_list memo [] = ([], memo)"
| "pickle_list memo (x # xs) =
     (case pickle_obj memo x of
        (k, memo') \<Rightarrow> (case pickle_list memo' xs of (ks, memo'') \<Rightarrow> (k # ks, memo'')))"
| "pickle_items memo [] = ([], memo)"
| "pickle_items memo ((key, v) # d) =
     (case pickle_obj memo (PStr (fst key) (snd key)) of
        (k, memo1) \<Rightarrow>
          (case pickle_obj memo1 v of
             (kv, memo2) \<Rightarrow>
               (case pickle_items memo2 d of (ks, memo3) \<Rightarrow> ((k, kv) # ks, memo3))))"

definition pickle_dumps :: "'f pyobj \<Rightarrow> 'f pickled" where
  "pickle_dumps x = fst (pickle_obj [] x)"

text \<open>
  \<^verbatim>\<open>hashlib.md5(...).hexdigest()\<close> is kept as a symbol: the stamp is \<open>MD5\<close> of what
  the pickler writes. Equal pickles have equal stamps, as with any function; that
  different pickles have different stamps is the reading most favourable to the hash, which
  MD5 itself does not guarantee.
\<close>

datatype 'f digest = MD5 "'f pickled"

text \<open>The pickle of the list \<^verbatim>\<open>idata_params\<close>, a new list object.\<close>

definition idata_pickle :: "'f pyenv \<Rightarrow> 'f parameters \<Rightarrow> py_error + 'f pickled" where
  "idata_pickle env ps =
     map_sum id (\<lambda>params. pickle_dumps (PList ParamsList params)) (idata_params env ps)"

definition idataHash :: "'f pyenv \<Rightarrow> 'f parameters \<Rightarrow> py_error + 'f digest" where
  "idataHash env ps = map_sum id MD5 (idata_pickle env ps)"

section \<open>Notions for stating the properties\<close>




text \<open>
  The results of the descriptor methods that \<^verbatim>\<open>self.control.MD\<close> names, in the order in
  which \<^verbatim>\<open>computeMD\<close> asks for them.
\<close>

definition attempted_methods ::
  "('mol, 'f, 'a) externals \<Rightarrow> control \<Rightarrow> string \<Rightarrow> world \<Rightarrow> 'a outcome list" where
  "attempted_methods ext ctl ifile w =
     (if ''RDKit_properties'' \<in> set (MD ctl) then [RDKit_properties ext ifile w] else []) @
     (if ''RDKit_md'' \<in> set (MD ctl) then [RDKit_descriptors ext ifile w] else []) @
     (if ''custom'' \<in> set (MD ctl) then [computeMD_custom ifile] else [])"

text \<open>
  The activity value \<^verbatim>\<open>extractAnotations\<close> records for a molecule: the float of its
  activity property, and \<^verbatim>\<open>nan\<close> when the property is absent or is no float.
\<close>

definition activity_of :: "('mol, 'f, 'a) externals \<Rightarrow> control \<Rightarrow> 'mol \<Rightarrow> 'f" where
  "activity_of ext ctl mol =
     (if HasProp ext mol (SDFile_activity ctl)
      then (case py_float ext (GetProp ext mol (SDFile_activity ctl)) of
              None \<Rightarrow> np_nan ext | Some v \<Rightarrow> v)
      else np_nan ext)"

text \<open>The molecule has an experimental annotation that numpy cannot turn into a float.\<close>

definition exp_unreadable :: "('mol, 'f, 'a) externals \<Rightarrow> control \<Rightarrow> 'mol \<Rightarrow> bool" where
  "exp_unreadable ext ctl mol =
     (HasProp ext mol (SDFile_experimental ctl) \<and>
      np_float ext (GetProp ext mol (SDFile_experimental ctl)) = None)"

text \<open>The strings \<^verbatim>\<open>key + str(value)\<close> of the items of a dictionary, in its order.\<close>

definition md_strings :: "'f pyenv \<Rightarrow> ((oid \<times> string) \<times> 'f pyobj) list \<Rightarrow> string list" where
  "md_strings env d = map (\<lambda>kv. snd (fst kv) @ py_str env (snd kv)) d"

text \<open>Every object in the value is one that was loaded with the configuration.\<close>

definition is_loaded :: "oid \<Rightarrow> bool" where
  "is_loaded a = (case a of Loaded n \<Rightarrow> True | _ \<Rightarrow> False)"

fun loaded_only :: "'f pyobj \<Rightarrow> bool" where
  "loaded_only (PStr a s) = is_loaded a"
| "loaded_only (PList a xs) = (is_loaded a \<and> list_all loaded_only xs)"
| "loaded_only (PDict a d) =
     (is_loaded a \<and> list_all (\<lambda>kv. is_loaded (fst (fst kv)) \<and> loaded_only (snd kv)) d)"
| "loaded_only x = True"

section \<open>Sample inputs\<close>

text \<open>A world with no file and nothing printed.\<close>

definition empty_world :: world where
  "empty_world = \<lparr>files = Map.empty, undeletable = [], stdout = [], trace = []\<rparr>"

text \<open>
  A small stand-in for the libraries, for running the methods on concrete inputs. A
  molecule is its mol block with its properties; the reader knows three file texts; the
  standardiser marks a block with a star; a float is read from a string of digits only, and
  \<open>None\<close> stands for \<^verbatim>\<open>nan\<close>.
\<close>

type_synonym sample_mol = "string \<times> (string \<times> string) list"

definition sample_float :: "string \<Rightarrow> int option option" where
  "sample_float s =
     (if s \<noteq> [] \<and> list_all (\<lambda>c. c \<in> set ''0123456789'') s
      then Some (Some (foldl (\<lambda>n c. 10 * n + (of_char c - 48)) 0 s)) else None)"

definition mol_a :: sample_mol where
  "mol_a = (''A'', [(''name'', ''aspirin''), (''activity'', ''12''), (''exp'', ''7'')])"

definition mol_b :: sample_mol where
  "mol_b = (''B'', [(''activity'', ''high''), (''exp'', ''IC50'')])"

definition sample_ext :: "(sample_mol, int option, int) externals" where
  "sample_ext =
     \<lparr>parse_sdf = (\<lambda>text. if text = ''A?B'' then [Some mol_a, None, Some mol_b]
                           else if text = ''A'' then [Some mol_a]
                           else if text = ''B'' then [Some mol_b] else []),
      MolToMolBlock = fst,
      HasProp = (\<lambda>m k. map_of (snd m) k \<noteq> None),
      GetProp = (\<lambda>m k. case map_of (snd m) k of None \<Rightarrow> [] | Some v \<Rightarrow> v),
      getName = (\<lambda>m i field. case map_of (snd m) field of None \<Rightarrow> str_nat i | Some v \<Rightarrow> v),
      standardise_run = (\<lambda>b. Standardised (b @ ''*'')),
      py_float = sample_float,
      np_float = sample_float,
      np_nan = None,
      ETKDG = (\<lambda>f w. ((True, f), w)),
      RDKit_properties = (\<lambda>f w. (True, MDpair (Numpy \<lparr>ncols = 1, rows = [[1]]\<rparr>) [''p''])),
      RDKit_descriptors =
        (\<lambda>f w. (True, MDpair (Numpy \<lparr>ncols = 2, rows = [[2, 3]]\<rparr>) [''d1'', ''d2''])),
      repr_md = (\<lambda>x names. ''(...)'')\<rparr>"

definition sample_ctl :: control where
  "sample_ctl =
     \<lparr>SDFile_name = ''name'', SDFile_activity = ''activity'', SDFile_experimental = ''exp'',
      chemstand_method = Some ''standardize'', ionize_method = None, convert3D_method = None,
      MD = [''RDKit_properties'', ''RDKit_md'']\<rparr>"

definition sample_world :: world where
  "sample_world =
     \<lparr>files = [''in.sdf'' \<mapsto> ''A?B'', ''a.sdf'' \<mapsto> ''A'', ''b.sdf'' \<mapsto> ''B''],
      undeletable = [''a.sdf''], stdout = [], trace = []\<rparr>"

text \<open>
  Python's part for configurations without floats (the one float there is prints as
  \<open>nan\<close>), with the \<^verbatim>\<open>repr\<close> of a string that needs no escape; and five
  configurations in the first parameter format, all objects distinct but for the one
  named. The second has the items of \<^verbatim>\<open>MD_settings\<close> in the other order, the third
  has other values under the same keys. In the fourth the value under the empty key of
  \<^verbatim>\<open>MD_settings\<close> is the very object that is the value of \<^verbatim>\<open>SDFile_name\<close>; the fifth
  has its two items in the other order.
\<close>

definition sample_pyenv :: "unit pyenv" where
  "sample_pyenv =
     \<lparr>float_str = (\<lambda>x. ''nan''), float_of_int = (\<lambda>i. Some ()), one_minus = (\<lambda>x. x),
      str_repr = (\<lambda>s. [CHR 0x27] @ s @ [CHR 0x27])\<rparr>"

definition cfg_a :: "unit parameters" where
  "cfg_a = \<lparr>extended = False,
            p = [(''SDFile_name'', PStr (Loaded 1) ''name''),
                 (''MD_settings'',
                  PDict (Loaded 2)
                    [((Loaded 3, ''x''), PStr (Loaded 4) ''1y''),
                     ((Loaded 5, ''x1''), PStr (Loaded 6) ''z'')])]\<rparr>"

definition cfg_a_reordered :: "unit parameters" where
  "cfg_a_reordered = \<lparr>extended = False,
            p = [(''SDFile_name'', PStr (Loaded 1) ''name''),
                 (''MD_settings'',
                  PDict (Loaded 2)
                    [((Loaded 5, ''x1''), PStr (Loaded 6) ''z''),
                     ((Loaded 3, ''x''), PStr (Loaded 4) ''1y'')])]\<rparr>"

definition cfg_b :: "unit parameters" where
  "cfg_b = \<lparr>extended = False,
            p = [(''SDFile_name'', PStr (Loaded 1) ''name''),
                 (''MD_settings'',
                  PDict (Loaded 2)
                    [((Loaded 3, ''x''), PStr (Loaded 4) ''1z''),
                     ((Loaded 5, ''x1''), PStr (Loaded 6) ''y'')])]\<rparr>"

definition cfg_c :: "unit parameters" where
  "cfg_c = \<lparr>extended = False,
            p = [(''SDFile_name'', PStr (Loaded 1) ''name''),
                 (''MD_settings'',
                  PDict (Loaded 2)
                    [((Loaded 3, ''''), PStr (Loaded 1) ''name''),
                     ((Loaded 5, ''na''), PStr (Loaded 6) ''me'')])]\<rparr>"

definition cfg_c_reordered :: "unit parameters" where
  "cfg_c_reordered = \<lparr>extended = False,
            p = [(''SDFile_name'', PStr (Loaded 1) ''name''),
                 (''MD_settings'',
                  PDict (Loaded 2)
                    [((Loaded 5, ''na''), PStr (Loaded 6) ''me''),
                     ((Loaded 3, ''''), PStr (Loaded 1) ''name'')])]\<rparr>"

text \<open>A chunk result that is a success carrying a pair.\<close>

fun successful :: "'a outcome \<Rightarrow> bool" where
  "successful (ok, MDpair x names) = ok"
| "successful (ok, Msg m) = False"

section \<open>Properties of \<^verbatim>\<open>consolidate\<close>\<close>

lemma consolidate_loop_failed_chunk:
  "isl (consolidate_loop (pre @ (False, m) # post) st) \<or>
   (\<exists>st'. consolidate_loop (pre @ (False, m) # post) st = Inr (False, st'))"
proof (induction pre arbitrary: st)
  case Nil
  then show ?case by simp
next
  case (Cons r pre)
  show ?case
  proof (cases "fst r = False")
    case True
    then show ?thesis by simp
  next
    case False
    then show ?thesis using Cons.IH
      by (auto split: payload.splits list.splits xmatrix.splits option.splits sum.splits)
  qed
qed

text \<open>
  Claim C1. A list of chunk results with a failed chunk should make \<^verbatim>\<open>consolidate\<close>
  return \<open>(False, message of that chunk)\<close>. The code does not: whatever stands before and
  after the failed chunk, \<^verbatim>\<open>consolidate\<close> ends in an exception and returns nothing, and
  when the failed chunk is the first one the exception is the \<^verbatim>\<open>UnboundLocalError\<close> of
  \<^verbatim>\<open>return True, result\<close>.
\<close>

theorem consolidate_failed_chunk_raises:
  "isl (consolidate (pre @ (False, m) # post) nobj w) \<and>
   consolidate ((False, m) # post) nobj w = Inl UnboundLocalError"
proof
  show "isl (consolidate (pre @ (False, m) # post) nobj w)"
    using consolidate_loop_failed_chunk
      [of pre m post "\<lparr>first = True, nresults = None, nnames = [], cworld = w\<rparr>"]
    by (auto simp: consolidate_def split: sum.splits)
  show "consolidate ((False, m) # post) nobj w = Inl UnboundLocalError"
    by (simp add: consolidate_def)
qed

lemma consolidate_loop_mismatch_later:
  assumes "\<not> first st" "nresults st = Some acc"
    and "(True, MDpair (Numpy b) nb) \<in> set rs" "ncols b \<noteq> ncols acc"
  shows "(\<forall>st'. consolidate_loop rs st \<noteq> Inr (True, st')) \<and>
         (list_all successful rs \<longrightarrow> consolidate_loop rs st = Inl ValueError)"
  using assms
proof (induction rs arbitrary: st acc)
  case Nil
  then show ?case by simp
next
  case (Cons r rs)
  obtain ok pl where r: "r = (ok, pl)" by (cases r)
  show ?case
  proof (cases ok)
    case False
    with r show ?thesis by (cases pl) auto
  next
    case True
    note ok = this
    show ?thesis
    proof (cases pl)
      case (Msg m)
      with r ok Cons show ?thesis by (cases m) auto
    next
      case (MDpair x names)
      show ?thesis
      proof (cases x)
        case NotNumpy
        with r ok MDpair Cons.prems Cons.IH [of "st\<lparr>cworld := print ''unknown'' (cworld st)\<rparr>" acc]
        show ?thesis by auto
      next
        case (Numpy a)
        show ?thesis
        proof (cases "ncols acc = ncols a")
          case False
          with r ok MDpair Numpy Cons.prems show ?thesis by (simp add: vstack_def)
        next
          case True
          with Cons.prems r ok MDpair Numpy have mem: "(True, MDpair (Numpy b) nb) \<in> set rs"
            by auto
          let ?st = "st\<lparr>nresults := Some \<lparr>ncols = ncols acc, rows = rows acc @ rows a\<rparr>,
                          nnames := nnames st @ [Names names],
                          cworld := print ''merge arrays'' (cworld st)\<rparr>"
          have "(\<forall>st'. consolidate_loop rs ?st \<noteq> Inr (True, st')) \<and>
                (list_all successful rs \<longrightarrow> consolidate_loop rs ?st = Inl ValueError)"
            using Cons.IH [of ?st "\<lparr>ncols = ncols acc, rows = rows acc @ rows a\<rparr>"] Cons.prems mem
            by simp
          with r ok MDpair Numpy True Cons.prems show ?thesis by (simp add: vstack_def)
        qed
      qed
    qed
  qed
qed

lemma consolidate_loop_mismatch:
  assumes "first st"
    and "(True, MDpair (Numpy a) na) \<in> set rs" "(True, MDpair (Numpy b) nb) \<in> set rs"
    and "ncols a \<noteq> ncols b"
  shows "(\<forall>st'. consolidate_loop rs st \<noteq> Inr (True, st')) \<and>
         (list_all successful rs \<longrightarrow> consolidate_loop rs st = Inl ValueError)"
  using assms
proof (induction rs arbitrary: st)
  case Nil
  then show ?case by simp
next
  case (Cons r rs)
  obtain ok pl where r: "r = (ok, pl)" by (cases r)
  show ?case
  proof (cases ok)
    case False
    with r show ?thesis by (cases pl) auto
  next
    case True
    note ok = this
    show ?thesis
    proof (cases pl)
      case (Msg m)
      with r ok Cons show ?thesis by (cases m) auto
    next
      case (MDpair x names)
      show ?thesis
      proof (cases x)
        case NotNumpy
        with r ok MDpair Cons.prems Cons.IH [of "st\<lparr>cworld := print ''unknown'' (cworld st)\<rparr>"]
        show ?thesis by auto
      next
        case (Numpy c)
        let ?st = "st\<lparr>nresults := Some c, nnames := map Name names, first := False,
                        cworld := print ''merge arrays'' (cworld st)\<rparr>"
        have "\<exists>d nd. (True, MDpair (Numpy d) nd) \<in> set rs \<and> ncols d \<noteq> ncols c"
        proof (cases "ncols a = ncols c")
          case True
          with Cons.prems r ok MDpair Numpy have "(True, MDpair (Numpy b) nb) \<in> set rs" by auto
          with True Cons.prems show ?thesis by auto
        next
          case False
          with Cons.prems r ok MDpair Numpy have "(True, MDpair (Numpy a) na) \<in> set rs" by auto
          with False show ?thesis by auto
        qed
        then obtain d nd where d: "(True, MDpair (Numpy d) nd) \<in> set rs" "ncols d \<noteq> ncols c"
          by blast
        have "(\<forall>st'. consolidate_loop rs ?st \<noteq> Inr (True, st')) \<and>
              (list_all successful rs \<longrightarrow> consolidate_loop rs ?st = Inl ValueError)"
          using consolidate_loop_mismatch_later [of ?st c d nd rs] d by simp
        with r ok MDpair Numpy Cons.prems show ?thesis by simp
      qed
    qed
  qed
qed

text \<open>
  Claim C3, as the code has it. When every chunk result is a success carrying a pair and
  two of them carry numpy matrices with different column counts, \<^verbatim>\<open>consolidate\<close>
  returns no outcome: it ends in the \<^verbatim>\<open>ValueError\<close> of \<^verbatim>\<open>np.vstack\<close>, so no truncated
  or padded matrix comes back.
\<close>

theorem consolidate_column_mismatch_raises:
  assumes "(True, MDpair (Numpy a) na) \<in> set results"
    and "(True, MDpair (Numpy b) nb) \<in> set results"
    and "ncols a \<noteq> ncols b"
    and "list_all successful results"
  shows "consolidate results nobj w = Inl ValueError"
  using consolidate_loop_mismatch
    [of "\<lparr>first = True, nresults = None, nnames = [], cworld = w\<rparr>" a na results b nb] assms
  by (simp add: consolidate_def)

text \<open>
  The theorem at two chunks of one row each, the first with one column and the second
  with two.
\<close>

theorem consolidate_column_mismatch_raises_witness:
  "list_all successful
     [(True, MDpair (Numpy \<lparr>ncols = 1, rows = [[1::int]]\<rparr>) [''a'']),
      (True, MDpair (Numpy \<lparr>ncols = 2, rows = [[2, 3]]\<rparr>) [''a'', ''b''])] \<and>
   consolidate
     [(True, MDpair (Numpy \<lparr>ncols = 1, rows = [[1::int]]\<rparr>) [''a'']),
      (True, MDpair (Numpy \<lparr>ncols = 2, rows = [[2, 3]]\<rparr>) [''a'', ''b''])]
     [1, 1] empty_world = Inl ValueError"
  using consolidate_column_mismatch_raises
    [of "\<lparr>ncols = 1, rows = [[1::int]]\<rparr>" "[''a'']"
        "[(True, MDpair (Numpy \<lparr>ncols = 1, rows = [[1::int]]\<rparr>) [''a'']),
          (True, MDpair (Numpy \<lparr>ncols = 2, rows = [[2, 3]]\<rparr>) [''a'', ''b''])]"
        "\<lparr>ncols = 2, rows = [[2, 3]]\<rparr>" "[''a'', ''b'']" "[1, 1]" empty_world]
  by simp

text \<open>
  Claim C3 as the specification states it fails: on these two chunks \<^verbatim>\<open>consolidate\<close>
  does not return a failure outcome, it raises \<^verbatim>\<open>ValueError\<close>.
\<close>

theorem consolidate_column_mismatch_counterexample:
  "consolidate
     [(True, MDpair (Numpy \<lparr>ncols = 1, rows = [[1::int]]\<rparr>) [''a'']),
      (True, MDpair (Numpy \<lparr>ncols = 2, rows = [[2, 3]]\<rparr>) [''a'', ''b''])]
     [1, 1] empty_world = Inl ValueError"
  by (simp add: consolidate_def vstack_def)

lemma consolidate_loop_same_names:
  assumes "\<not> first st" "nresults st = Some acc"
    and "list_all (\<lambda>x. ncols x = ncols acc) xs"
  shows "\<exists>st'. consolidate_loop (map (\<lambda>x. (True, MDpair (Numpy x) ns)) xs) st = Inr (True, st') \<and>
           nresults st' = Some \<lparr>ncols = ncols acc, rows = rows acc @ concat (map rows xs)\<rparr> \<and>
           nnames st' = nnames st @ replicate (length xs) (Names ns)"
  using assms
proof (induction xs arbitrary: st acc)
  case Nil
  then show ?case by simp
next
  case (Cons x xs)
  let ?acc = "\<lparr>ncols = ncols acc, rows = rows acc @ rows x\<rparr>"
  let ?st = "st\<lparr>nresults := Some ?acc, nnames := nnames st @ [Names ns],
                  cworld := print ''merge arrays'' (cworld st)\<rparr>"
  from Cons.prems have step:
    "consolidate_loop (map (\<lambda>x. (True, MDpair (Numpy x) ns)) (x # xs)) st =
     consolidate_loop (map (\<lambda>x. (True, MDpair (Numpy x) ns)) xs) ?st"
    by (simp add: vstack_def)
  from Cons.prems have "list_all (\<lambda>y. ncols y = ncols ?acc) xs" by simp
  from Cons.IH [of ?st ?acc] this Cons.prems(1)
  obtain st' where
    "consolidate_loop (map (\<lambda>x. (True, MDpair (Numpy x) ns)) xs) ?st = Inr (True, st')"
    "nresults st' = Some \<lparr>ncols = ncols ?acc, rows = rows ?acc @ concat (map rows xs)\<rparr>"
    "nnames st' = nnames ?st @ replicate (length xs) (Names ns)"
    by auto
  with step show ?case by (simp add: replicate_append_same)
qed

text \<open>
  Claim C6. After a successful consolidation of chunks that carry the same name list, the
  returned names should be a flat sequence as long as the merged matrix has columns. The
  code does otherwise as soon as there is a second chunk: the first chunk's names are
  followed by one nested list for every later chunk, so that with \<open>k\<close> chunks the
  returned list has \<open>k - 1\<close> elements more than there are columns. The matrices are
  stacked as they should be.
\<close>

theorem consolidate_names_nested:
  assumes "list_all (\<lambda>x. ncols x = ncols x0) xs"
  shows "map_sum id fst
           (consolidate ((True, MDpair (Numpy x0) ns) # map (\<lambda>x. (True, MDpair (Numpy x) ns)) xs)
              nobj w) =
         Inr (True, Some \<lparr>ncols = ncols x0, rows = rows x0 @ concat (map rows xs)\<rparr>,
              map Name ns @ replicate (length xs) (Names ns))"
proof -
  let ?st = "\<lparr>first = False, nresults = Some x0, nnames = map Name ns,
               cworld = print ''merge arrays'' w\<rparr>"
  from consolidate_loop_same_names [of ?st x0 xs ns] assms
  obtain st' where
    "consolidate_loop (map (\<lambda>x. (True, MDpair (Numpy x) ns)) xs) ?st = Inr (True, st')"
    "nresults st' = Some \<lparr>ncols = ncols x0, rows = rows x0 @ concat (map rows xs)\<rparr>"
    "nnames st' = map Name ns @ replicate (length xs) (Names ns)"
    by auto
  then show ?thesis by (simp add: consolidate_def)
qed

text \<open>Two chunks of one row and two columns each, with the names \<open>a\<close> and \<open>b\<close>.\<close>

theorem consolidate_names_nested_witness:
  "map_sum id fst
     (consolidate
        [(True, MDpair (Numpy \<lparr>ncols = 2, rows = [[1, 2::int]]\<rparr>) [''a'', ''b'']),
         (True, MDpair (Numpy \<lparr>ncols = 2, rows = [[3, 4]]\<rparr>) [''a'', ''b''])]
        [1, 1] empty_world) =
   Inr (True, Some \<lparr>ncols = 2, rows = [[1, 2], [3, 4]]\<rparr>,
        [Name ''a'', Name ''b'', Names [''a'', ''b'']])"
  using consolidate_names_nested
    [of "\<lparr>ncols = 2, rows = [[1, 2::int]]\<rparr>" "[\<lparr>ncols = 2, rows = [[3, 4]]\<rparr>]"
        "[''a'', ''b'']" "[1, 1]" empty_world]
  by simp

section \<open>Properties of \<^verbatim>\<open>computeMD\<close>\<close>

lemma computeMD_blocks_attempted:
  "computeMD_blocks ext ctl ifile w =
     (map snd (filter fst (attempted_methods ext ctl ifile w)),
      if attempted_methods ext ctl ifile w = [] then None else Some (last (attempted_methods ext ctl ifile w)))"
  by (simp add: computeMD_blocks_def md_block_def attempted_methods_def)

text \<open>
  Claim C7, as the code has it. \<^verbatim>\<open>results_all\<close> collects the results of the configured
  methods that succeed, one entry each. When no configured method succeeds,
  \<^verbatim>\<open>computeMD\<close> returns the failure \<open>undefined MD\<close>. When the last configured method
  succeeds, \<^verbatim>\<open>computeMD\<close> returns a success that carries the pair of that method alone,
  not the collected list.
\<close>

theorem computeMD_last:
  "fst (computeMD_blocks ext ctl ifile w) = map snd (filter fst (attempted_methods ext ctl ifile w)) \<and>
   (list_all (\<lambda>r. \<not> fst r) (attempted_methods ext ctl ifile w) \<longrightarrow>
      computeMD ext ctl ifile w = (False, Msg ''undefined MD'')) \<and>
   (attempted_methods ext ctl ifile w \<noteq> [] \<and> fst (last (attempted_methods ext ctl ifile w)) \<longrightarrow>
      computeMD ext ctl ifile w = (True, snd (last (attempted_methods ext ctl ifile w))))"
proof (intro conjI impI)
  show "fst (computeMD_blocks ext ctl ifile w) = map snd (filter fst (attempted_methods ext ctl ifile w))"
    by (simp add: computeMD_blocks_attempted)
next
  assume "list_all (\<lambda>r. \<not> fst r) (attempted_methods ext ctl ifile w)"
  then have "filter fst (attempted_methods ext ctl ifile w) = []"
    by (simp add: list_all_iff filter_empty_conv)
  then show "computeMD ext ctl ifile w = (False, Msg ''undefined MD'')"
    by (simp add: computeMD_def computeMD_blocks_attempted)
next
  assume a: "attempted_methods ext ctl ifile w \<noteq> [] \<and> fst (last (attempted_methods ext ctl ifile w))"
  then have "last (attempted_methods ext ctl ifile w) \<in> set (filter fst (attempted_methods ext ctl ifile w))"
    by simp
  then have "filter fst (attempted_methods ext ctl ifile w) \<noteq> []" by (metis empty_iff empty_set)
  with a show "computeMD ext ctl ifile w = (True, snd (last (attempted_methods ext ctl ifile w)))"
    by (cases "last (attempted_methods ext ctl ifile w)") (simp add: computeMD_def computeMD_blocks_attempted)
qed

text \<open>
  With the two RDKit methods configured the pair of the second comes back; with only
  \<open>custom\<close> configured, which the class does not implement, nothing is defined.
\<close>

theorem computeMD_last_witness:
  "computeMD sample_ext sample_ctl ''in.sdf'' sample_world =
     (True, MDpair (Numpy \<lparr>ncols = 2, rows = [[2, 3]]\<rparr>) [''d1'', ''d2'']) \<and>
   computeMD sample_ext (sample_ctl\<lparr>MD := [''custom'']\<rparr>) ''in.sdf'' sample_world =
     (False, Msg ''undefined MD'')"
  using computeMD_last [of sample_ext sample_ctl "''in.sdf''" sample_world]
    computeMD_last [of sample_ext "sample_ctl\<lparr>MD := [''custom'']\<rparr>" "''in.sdf''" sample_world]
  by (simp add: attempted_methods_def sample_ext_def sample_ctl_def computeMD_custom_def)

text \<open>
  Claim C7 as the specification states it fails. Both RDKit methods succeed and two pairs
  are collected, yet the outcome carries the second pair only; and when \<open>custom\<close> is
  configured after a method that succeeded, the outcome is the failure of \<open>custom\<close>.
\<close>

theorem computeMD_counterexample:
  "computeMD sample_ext sample_ctl ''in.sdf'' sample_world =
     (True, MDpair (Numpy \<lparr>ncols = 2, rows = [[2, 3]]\<rparr>) [''d1'', ''d2'']) \<and>
   fst (computeMD_blocks sample_ext sample_ctl ''in.sdf'' sample_world) =
     [MDpair (Numpy \<lparr>ncols = 1, rows = [[1]]\<rparr>) [''p''],
      MDpair (Numpy \<lparr>ncols = 2, rows = [[2, 3]]\<rparr>) [''d1'', ''d2'']] \<and>
   computeMD sample_ext (sample_ctl\<lparr>MD := [''RDKit_properties'', ''custom'']\<rparr>) ''in.sdf'' sample_world =
     (False, Msg ''not implemented'')"
  by (simp add: computeMD_def computeMD_blocks_def md_block_def sample_ext_def sample_ctl_def
      computeMD_custom_def)

section \<open>Properties of \<^verbatim>\<open>normalize\<close>\<close>



lemma std_path_samples:
  "std_path ''in.sdf'' = ''in_std.sdf''" "std_path ''a.sdf'' = ''a_std.sdf''"
  by code_simp+


lemma normalize_loop_unbound:
  assumes "chemstand_method ctl \<noteq> Some ''standardize''" "parent st = None"
    and "Some m \<in> set suppl"
  shows "normalize_loop ext ctl ofile suppl st = Raised UnboundLocalError"
  using assms
proof (induction suppl arbitrary: st)
  case Nil
  then show ?case by simp
next
  case (Cons x suppl)
  then show ?case by (cases x) auto
qed

text \<open>
  Claim C4. With standardization disabled \<^verbatim>\<open>normalize\<close> should write every structure
  unchanged and succeed. The code does not: as soon as the file holds one structure that
  RDKit can read, \<^verbatim>\<open>fo.write(parent)\<close> reads a variable that was never assigned and
  \<^verbatim>\<open>normalize\<close> ends in \<^verbatim>\<open>UnboundLocalError\<close>.
\<close>

theorem normalize_disabled_raises:
  assumes "files w ifile = Some text" "Some m \<in> set (parse_sdf ext text)"
    and "chemstand_method ctl \<noteq> Some ''standardize''"
  shows "normalize ext ctl ifile clean w = Inl UnboundLocalError"
  using assms normalize_loop_unbound [of ctl _ m "parse_sdf ext text" ext "std_path ifile"]
  by (simp add: normalize_def SDMolSupplier_def)

text \<open>The file \<open>a.sdf\<close> holds one readable structure.\<close>

theorem normalize_disabled_raises_witness:
  "normalize sample_ext (sample_ctl\<lparr>chemstand_method := None\<rparr>) ''a.sdf'' False sample_world =
     Inl UnboundLocalError"
  using normalize_disabled_raises
    [of sample_world "''a.sdf''" "''A''" mol_a sample_ext "sample_ctl\<lparr>chemstand_method := None\<rparr>" False]
  by (simp add: sample_world_def sample_ext_def sample_ctl_def)



















section \<open>Properties of \<^verbatim>\<open>workflow\<close>\<close>

text \<open>
  Claim C2. A failure of any stage should stop \<^verbatim>\<open>workflow\<close> with a message naming the
  stage. For \<^verbatim>\<open>normalize\<close> the code does not stop: the message is stored and the method
  goes on with the input file itself, so that with the optional stages disabled and the
  descriptors computed, \<^verbatim>\<open>workflow\<close> returns their success and the failure is lost.
\<close>

theorem workflow_ignores_failed_normalize:
  assumes "normalize ext ctl ifile False w = Inr ((False, msg), w1)"
    and "ionize_method ctl = None" "convert3D_method ctl = None"
    and "computeMD ext ctl ifile w1 = (True, r)"
  shows "workflow ext ctl ifile w = Inr ((True, r), w1)"
  using assms by (simp add: workflow_def)

lemma sample_normalize_boom:
  "map_sum id fst
     (normalize (sample_ext\<lparr>standardise_run := (\<lambda>b. StandardiseException ''boom'')\<rparr>) sample_ctl
        ''in.sdf'' False sample_world) = Inr (False, ''boom'')"
  by (simp add: normalize_def SDMolSupplier_def sample_world_def sample_ext_def sample_ctl_def
      std_path_samples standardise_try_def Let_def mol_a_def mol_b_def)

text \<open>
  The standardiser raises \<^verbatim>\<open>StandardiseException\<close> named \<open>boom\<close> on every structure:
  \<^verbatim>\<open>normalize\<close> returns \<open>(False, boom)\<close> and \<^verbatim>\<open>workflow\<close> a success.
\<close>

theorem workflow_ignores_failed_normalize_witness:
  "map_sum id fst
     (normalize (sample_ext\<lparr>standardise_run := (\<lambda>b. StandardiseException ''boom'')\<rparr>) sample_ctl
        ''in.sdf'' False sample_world) = Inr (False, ''boom'') \<and>
   map_sum id fst
     (workflow (sample_ext\<lparr>standardise_run := (\<lambda>b. StandardiseException ''boom'')\<rparr>) sample_ctl
        ''in.sdf'' sample_world) =
     Inr (True, MDpair (Numpy \<lparr>ncols = 2, rows = [[2, 3]]\<rparr>) [''d1'', ''d2''])"
proof -
  let ?ext = "sample_ext\<lparr>standardise_run := (\<lambda>b. StandardiseException ''boom'')\<rparr>"
  obtain w1 where n: "normalize ?ext sample_ctl ''in.sdf'' False sample_world = Inr ((False, ''boom''), w1)"
    using sample_normalize_boom
    by (cases "normalize ?ext sample_ctl ''in.sdf'' False sample_world") auto
  have c: "computeMD ?ext sample_ctl ''in.sdf'' w1 =
             (True, MDpair (Numpy \<lparr>ncols = 2, rows = [[2, 3]]\<rparr>) [''d1'', ''d2''])"
    by (simp add: computeMD_def computeMD_blocks_def md_block_def sample_ext_def sample_ctl_def)
  have "workflow ?ext sample_ctl ''in.sdf'' sample_world =
          Inr ((True, MDpair (Numpy \<lparr>ncols = 2, rows = [[2, 3]]\<rparr>) [''d1'', ''d2'']), w1)"
    by (rule workflow_ignores_failed_normalize [OF n _ _ c]) (simp_all add: sample_ctl_def)
  with n show ?thesis by simp
qed

section \<open>Properties of \<^verbatim>\<open>extractAnotations\<close>\<close>

lemma extract_loop_readable:
  "extract_loop ext ctl i (map Some mols) (obj_nam, obj_bio, obj_exp) =
     (obj_nam @ map (\<lambda>(k, m). getName ext m k (SDFile_name ctl)) (enumerate i mols),
      obj_bio @ map (\<lambda>m. if HasProp ext m (SDFile_activity ctl)
                          then py_float ext (GetProp ext m (SDFile_activity ctl)) else None) mols,
      obj_exp @ map (\<lambda>m. if HasProp ext m (SDFile_experimental ctl)
                          then Some (GetProp ext m (SDFile_experimental ctl)) else None) mols)"
  by (induction mols arbitrary: i obj_nam obj_bio obj_exp) (simp_all add: Let_def)

lemma np_array_str_ok:
  "\<forall>m\<in>set mols. \<not> exp_unreadable ext ctl m \<Longrightarrow>
   \<exists>ys. np_array_str ext
          (map (\<lambda>m. if HasProp ext m (SDFile_experimental ctl)
                    then Some (GetProp ext m (SDFile_experimental ctl)) else None) mols) = Inr ys \<and>
        length ys = length mols"
proof (induction mols)
  case Nil
  then show ?case by simp
next
  case (Cons m mols)
  then show ?case by (auto simp: exp_unreadable_def)
qed

lemma np_array_str_bad:
  "\<exists>m\<in>set mols. exp_unreadable ext ctl m \<Longrightarrow>
   np_array_str ext
     (map (\<lambda>m. if HasProp ext m (SDFile_experimental ctl)
               then Some (GetProp ext m (SDFile_experimental ctl)) else None) mols) = Inl ValueError"
proof (induction mols)
  case Nil
  then show ?case by simp
next
  case (Cons m mols)
  show ?case
  proof (cases "exp_unreadable ext ctl m")
    case True
    then show ?thesis by (simp add: exp_unreadable_def)
  next
    case False
    with Cons have "np_array_str ext
     (map (\<lambda>m. if HasProp ext m (SDFile_experimental ctl)
               then Some (GetProp ext m (SDFile_experimental ctl)) else None) mols) = Inl ValueError"
      by auto
    then show ?thesis by (auto split: option.splits)
  qed
qed

text \<open>
  Claim C9. For a file that holds the structures \<open>mols\<close>, all readable,
  \<^verbatim>\<open>extractAnotations\<close> should return three sequences as long as \<open>mols\<close>. The code
  does so when no structure has an experimental annotation that fails to convert to a
  float: the names, and the activities with \<^verbatim>\<open>nan\<close> for an activity that is absent or
  is no float. When some structure has such an annotation, as the activity type
  \<open>IC50\<close> that the docstring names, the conversion of the annotations to a
  \<^verbatim>\<open>float64\<close> array raises \<^verbatim>\<open>ValueError\<close> and nothing is returned.
\<close>

theorem extractAnotations_lengths:
  assumes "files w ifile = Some body" and "parse_sdf ext body = map Some mols"
  shows "((\<forall>m\<in>set mols. \<not> exp_unreadable ext ctl m) \<longrightarrow>
           (\<exists>nam bio exp.
              extractAnotations ext ctl w ifile = Inr (nam, bio, exp) \<and>
              length nam = length mols \<and> length bio = length mols \<and> length exp = length mols \<and>
              bio = map (activity_of ext ctl) mols \<and>
              nam = map (\<lambda>(k, m). getName ext m k (SDFile_name ctl)) (enumerate 0 mols))) \<and>
         ((\<exists>m\<in>set mols. exp_unreadable ext ctl m) \<longrightarrow>
           extractAnotations ext ctl w ifile = Inl ValueError)"
proof (intro conjI impI)
  assume "\<forall>m\<in>set mols. \<not> exp_unreadable ext ctl m"
  from np_array_str_ok [OF this] obtain ys where
    ys: "np_array_str ext
          (map (\<lambda>m. if HasProp ext m (SDFile_experimental ctl)
                    then Some (GetProp ext m (SDFile_experimental ctl)) else None) mols) = Inr ys"
      "length ys = length mols"
    by blast
  have "map (\<lambda>x. case x of None \<Rightarrow> np_nan ext | Some v \<Rightarrow> v)
          (map (\<lambda>m. if HasProp ext m (SDFile_activity ctl)
                    then py_float ext (GetProp ext m (SDFile_activity ctl)) else None) mols) =
        map (activity_of ext ctl) mols"
    by (simp add: activity_of_def)
  with ys assms show "\<exists>nam bio exp.
              extractAnotations ext ctl w ifile = Inr (nam, bio, exp) \<and>
              length nam = length mols \<and> length bio = length mols \<and> length exp = length mols \<and>
              bio = map (activity_of ext ctl) mols \<and>
              nam = map (\<lambda>(k, m). getName ext m k (SDFile_name ctl)) (enumerate 0 mols)"
    by (simp add: extractAnotations_def SDMolSupplier_def extract_loop_readable np_array_float_def)
next
  assume "\<exists>m\<in>set mols. exp_unreadable ext ctl m"
  from np_array_str_bad [OF this] assms
  show "extractAnotations ext ctl w ifile = Inl ValueError"
    by (simp add: extractAnotations_def SDMolSupplier_def extract_loop_readable)
qed

text \<open>
  \<open>a.sdf\<close> holds a structure with numeric annotations; the structure of \<open>b.sdf\<close> has
  the activity \<open>high\<close> and the annotation \<open>IC50\<close>, read once under a field name it does
  not carry and once under its own.
\<close>

theorem extractAnotations_lengths_witness:
  "extractAnotations sample_ext sample_ctl sample_world ''a.sdf'' =
     Inr ([''aspirin''], [Some 12], [Some 7]) \<and>
   extractAnotations sample_ext (sample_ctl\<lparr>SDFile_experimental := ''none''\<rparr>) sample_world ''b.sdf'' =
     Inr ([''0''], [None], [None]) \<and>
   extractAnotations sample_ext sample_ctl sample_world ''b.sdf'' = Inl ValueError"
proof -
  have fa: "files sample_world ''a.sdf'' = Some ''A''" and fb: "files sample_world ''b.sdf'' = Some ''B''"
    by (simp_all add: sample_world_def)
  have pa: "parse_sdf sample_ext ''A'' = map Some [mol_a]" and pb: "parse_sdf sample_ext ''B'' = map Some [mol_b]"
    by (simp_all add: sample_ext_def)
  have s12: "sample_float ''12'' = Some (Some 12)" and s7: "sample_float ''7'' = Some (Some 7)"
    and sh: "sample_float ''high'' = None" and si: "sample_float ''IC50'' = None"
    by (simp_all add: sample_float_def)
  have s0: "str_nat 0 = ''0''" by (simp add: str_nat.simps digit_char_def)
  show ?thesis
    using extractAnotations_lengths [OF fa pa, of sample_ctl]
      extractAnotations_lengths [OF fb pb, of "sample_ctl\<lparr>SDFile_experimental := ''none''\<rparr>"]
      extractAnotations_lengths [OF fb pb, of sample_ctl]
    by (auto simp: exp_unreadable_def activity_of_def sample_ext_def sample_ctl_def mol_a_def mol_b_def
        s12 s7 sh si s0 extractAnotations_def SDMolSupplier_def np_array_float_def sample_world_def)
qed

text \<open>
  The failing input by itself: \<open>b.sdf\<close> holds one readable structure and no unreadable
  one, its annotation is \<open>IC50\<close>, and \<^verbatim>\<open>extractAnotations\<close> returns nothing.
\<close>

lemma extractAnotations_sample_IC50:
  "extractAnotations sample_ext sample_ctl sample_world ''b.sdf'' = Inl ValueError"
  by (simp add: extractAnotations_def SDMolSupplier_def sample_world_def sample_ext_def sample_ctl_def
      mol_b_def sample_float_def)

section \<open>Properties of \<^verbatim>\<open>idataHash\<close>\<close>

lemma memo_index_None: "memo_index memo a = None \<longleftrightarrow> a \<notin> set memo"
  by (induction memo) auto

lemma snd_str_object: "snd (str_object env n v) = py_str env v"
  by (simp add: str_object_def py_str_def split: pyobj.splits)

lemma dict_get_member:
  assumes "distinct (map (\<lambda>kv. snd (fst kv)) d)" "((a, k), v) \<in> set d"
  shows "dict_get d k = Some v"
proof -
  have "distinct (map fst (map (\<lambda>kv. (snd (fst kv), snd kv)) d))"
    using assms(1) by (simp add: comp_def)
  moreover have "(k, v) \<in> set (map (\<lambda>kv. (snd (fst kv), snd kv)) d)"
    using assms(2) by force
  ultimately show ?thesis unfolding dict_get_def by (rule map_of_is_SomeI)
qed

lemma md_loop_dict:
  assumes "distinct (map (\<lambda>kv. snd (fst kv)) d)" "set d' \<subseteq> set d"
    and "list_all (\<lambda>kv. snd (fst kv) \<noteq> [] \<and> py_str env (snd kv) \<noteq> []) d'"
  shows "md_loop env (PDict a d) n (map (\<lambda>kv. PStr (fst (fst kv)) (snd (fst kv))) d') =
           Inr (map (\<lambda>(j, kv). (Concat j, snd (fst kv) @ py_str env (snd kv))) (enumerate n d'))"
  using assms(2,3)
proof (induction d' arbitrary: n)
  case Nil
  then show ?case by simp
next
  case (Cons kv d')
  obtain b k v where kv: "kv = ((b, k), v)" by (cases kv) auto
  with Cons.prems have "((b, k), v) \<in> set d" by simp
  with assms(1) have get: "dict_get d k = Some v" by (rule dict_get_member)
  from Cons.prems kv have ne: "k \<noteq> []" "py_str env v \<noteq> []" by simp_all
  have add: "add_str n (PStr b k) (str_object env n v) = Inr (Concat n, k @ py_str env v)"
    using ne by (simp add: add_str_def snd_str_object)
  have sub: "subscript (PDict a d) (PStr b k) = Inr v"
    using get by (simp add: subscript_def)
  have rest: "md_loop env (PDict a d) (Suc n) (map (\<lambda>kv. PStr (fst (fst kv)) (snd (fst kv))) d') =
           Inr (map (\<lambda>(j, kv). (Concat j, snd (fst kv) @ py_str env (snd kv))) (enumerate (Suc n) d'))"
    using Cons.IH [of "Suc n"] Cons.prems by simp
  show ?case unfolding kv by (simp add: sub add rest)
qed

lemma map_sort_key: "map f (sort_key f xs) = sort (map f xs)"
proof -
  have "mset (map f (sort_key f xs)) = mset (map f xs)" by simp
  moreover have "sorted (map f (sort_key f xs))" by (rule sorted_sort_key)
  ultimately have "sort (map f xs) = map f (sort_key f xs)" by (rule properties_for_sort)
  then show ?thesis by simp
qed

lemma sort_eq_iff_mset: "sort xs = sort ys \<longleftrightarrow> mset xs = mset (ys :: string list)"
proof
  assume "sort xs = sort ys"
  then have "mset (sort xs) = mset (sort ys)" by simp
  then show "mset xs = mset ys" by simp
next
  assume "mset xs = mset ys"
  then show "sort xs = sort ys"
    by (metis mset_sort properties_for_sort sorted_sort)
qed

lemma pickle_list_append:
  "pickle_list memo (xs @ ys) =
     (case pickle_list memo xs of
        (ks, memo') \<Rightarrow> (case pickle_list memo' ys of (ks', memo'') \<Rightarrow> (ks @ ks', memo'')))"
  by (induction xs arbitrary: memo) (auto split: prod.splits)

lemma pickle_list_new_strings:
  assumes "distinct (map fst objs)" "set (map fst objs) \<inter> set memo = {}"
  shows "pickle_list memo (map (\<lambda>s. PStr (fst s) (snd s)) objs) =
           (map (\<lambda>s. KStr (snd s)) objs, memo @ map fst objs)"
  using assms
proof (induction objs arbitrary: memo)
  case Nil
  then show ?case by simp
next
  case (Cons s objs)
  from Cons.prems have "fst s \<notin> set memo" by auto
  then have "memo_index memo (fst s) = None" by (simp add: memo_index_None)
  moreover from Cons.prems have "distinct (map fst objs)"
    "set (map fst objs) \<inter> set (memo @ [fst s]) = {}"
    by auto
  ultimately show ?case using Cons.IH [of "memo @ [fst s]"] by simp
qed

lemma pickle_memo_loaded:
  "loaded_only (x :: 'f pyobj) \<Longrightarrow>
     \<forall>a\<in>set (snd (pickle_obj memo x)). a \<in> set memo \<or> is_loaded a"
  "list_all loaded_only (xs :: 'f pyobj list) \<Longrightarrow> \<forall>a\<in>set (snd (pickle_list memo xs)). a \<in> set memo \<or> is_loaded a"
  "list_all (\<lambda>kv. is_loaded (fst (fst kv)) \<and> loaded_only (snd kv))
     (d :: ((oid \<times> string) \<times> 'f pyobj) list) \<Longrightarrow>
     \<forall>a\<in>set (snd (pickle_items memo d)). a \<in> set memo \<or> is_loaded a"
proof (induction memo x and memo xs and memo d rule: pickle_obj_pickle_list_pickle_items.induct)
  case (6 memo a xs)
  then show ?case by (auto split: option.splits prod.splits)
next
  case (7 memo a d)
  then show ?case by (auto split: option.splits prod.splits)
next
  case (9 memo x xs)
  then show ?case by (fastforce split: prod.splits)
next
  case (11 memo key v d)
  then show ?case by (fastforce split: option.splits prod.splits)
qed (auto split: option.splits)

lemma idata_params_dict:
  assumes "getVals env ps keylist = Inr vals" "getDict ps ''MD_settings'' = Inr (PDict a d)"
    and "distinct (map (\<lambda>kv. snd (fst kv)) d)"
    and "list_all (\<lambda>kv. snd (fst kv) \<noteq> [] \<and> py_str env (snd kv) \<noteq> []) d"
  shows "idata_params env ps =
           Inr (vals @
                [PList MdList
                   (map (\<lambda>s. PStr (fst s) (snd s))
                      (sort_key snd
                         (map (\<lambda>(j, kv). (Concat j, snd (fst kv) @ py_str env (snd kv)))
                            (enumerate 0 d))))])"
  using assms(1,2) md_loop_dict [OF assms(3) subset_refl assms(4), of a 0]
  by (simp add: idata_params_def py_iter_def)

lemma idata_pickle_dict:
  assumes "getVals env ps keylist = Inr vals" "getDict ps ''MD_settings'' = Inr (PDict a d)"
    and "distinct (map (\<lambda>kv. snd (fst kv)) d)"
    and "list_all (\<lambda>kv. snd (fst kv) \<noteq> [] \<and> py_str env (snd kv) \<noteq> []) d"
    and "list_all loaded_only vals"
  shows "idata_pickle env ps =
           Inr (KList (fst (pickle_list [ParamsList] vals) @
                       [KList (map KStr (sort (md_strings env d)))]))"
proof -
  define objs where
    "objs = map (\<lambda>(j, kv). (Concat j, snd (fst kv) @ py_str env (snd kv))) (enumerate 0 d)"
  define sorted_objs where "sorted_objs = sort_key snd objs"
  have ids: "map fst objs = map Concat [0..<length d]"
    unfolding objs_def by (simp add: enumerate_eq_zip map_fst_zip_take case_prod_unfold comp_def
        flip: map_map [of Concat fst, unfolded comp_def])
  have texts: "map snd objs = md_strings env d"
    unfolding objs_def md_strings_def
    by (simp add: enumerate_eq_zip case_prod_unfold comp_def
        flip: map_map [of "\<lambda>kv. snd (fst kv) @ py_str env (snd kv)" snd, unfolded comp_def])
  have "distinct (map fst objs)" unfolding ids by (simp add: distinct_map inj_on_def)
  moreover have "mset (map fst sorted_objs) = mset (map fst objs)"
    unfolding sorted_objs_def by simp
  ultimately have dist: "distinct (map fst sorted_objs)"
    by (metis mset_eq_imp_distinct_iff)
  have "set (map fst sorted_objs) = set (map fst objs)"
    unfolding sorted_objs_def by simp
  also have "\<dots> = set (map Concat [0..<length d])" by (simp only: ids)
  finally have sids: "set (map fst sorted_objs) \<subseteq> range Concat" by auto
  have stexts: "map snd sorted_objs = sort (md_strings env d)"
    unfolding sorted_objs_def by (simp add: map_sort_key texts)
  obtain ks memo where pv: "pickle_list [ParamsList] vals = (ks, memo)"
    by (cases "pickle_list [ParamsList] vals")
  have memo: "\<forall>b\<in>set memo. b = ParamsList \<or> is_loaded b"
    using pickle_memo_loaded(2) [OF assms(5), of "[ParamsList]"] pv by simp
  then have md: "memo_index memo MdList = None"
    by (auto simp: memo_index_None is_loaded_def)
  have "b \<notin> set (memo @ [MdList])" if "b \<in> set (map fst sorted_objs)" for b
  proof -
    from that sids obtain j where "b = Concat j" by blast
    with memo show ?thesis by (auto simp: is_loaded_def)
  qed
  then have "set (map fst sorted_objs) \<inter> set (memo @ [MdList]) = {}" by blast
  from pickle_list_new_strings [OF dist this]
  have strs: "pickle_list (memo @ [MdList]) (map (\<lambda>s. PStr (fst s) (snd s)) sorted_objs) =
      (map KStr (sort (md_strings env d)), (memo @ [MdList]) @ map fst sorted_objs)"
    using stexts by (simp add: comp_def flip: map_map [of KStr snd, unfolded comp_def])
  have "idata_params env ps =
          Inr (vals @ [PList MdList (map (\<lambda>s. PStr (fst s) (snd s)) sorted_objs)])"
    unfolding sorted_objs_def objs_def by (rule idata_params_dict [OF assms(1-4)])
  then show ?thesis
    by (simp add: idata_pickle_def pickle_dumps_def pickle_list_append pv md strs)
qed

text \<open>
  Claim C8, as the code has it. The two configurations give the same objects for the keys
  of the key list, all of them loaded with the configuration, and a dictionary for
  \<^verbatim>\<open>MD_settings\<close> in which no key is the empty string and no value prints as the empty
  string, so that every string \<^verbatim>\<open>key + str(value)\<close> is a new object. When the
  dictionaries have the same items, in whatever order, the stamps are identical. The
  pickles that are hashed are equal exactly when the strings \<^verbatim>\<open>key + str(value)\<close> of
  the two dictionaries are the same up to their order: a sub-parameter value that differs
  changes what is hashed only if it changes these strings.
\<close>

theorem idataHash_order_and_strings:
  assumes "getVals env ps1 keylist = Inr vals" "getVals env ps2 keylist = Inr vals"
    and "getDict ps1 ''MD_settings'' = Inr (PDict a1 d1)"
    and "getDict ps2 ''MD_settings'' = Inr (PDict a2 d2)"
    and "distinct (map (\<lambda>kv. snd (fst kv)) d1)" "distinct (map (\<lambda>kv. snd (fst kv)) d2)"
    and "list_all (\<lambda>kv. snd (fst kv) \<noteq> [] \<and> py_str env (snd kv) \<noteq> []) d1"
    and "list_all (\<lambda>kv. snd (fst kv) \<noteq> [] \<and> py_str env (snd kv) \<noteq> []) d2"
    and "list_all loaded_only vals"
  shows "(mset d1 = mset d2 \<longrightarrow> idataHash env ps1 = idataHash env ps2) \<and>
         (idata_pickle env ps1 = idata_pickle env ps2 \<longleftrightarrow>
            mset (md_strings env d1) = mset (md_strings env d2))"
proof -
  have p1: "idata_pickle env ps1 =
           Inr (KList (fst (pickle_list [ParamsList] vals) @
                       [KList (map KStr (sort (md_strings env d1)))]))"
    by (rule idata_pickle_dict [OF assms(1) assms(3) assms(5) assms(7) assms(9)])
  have p2: "idata_pickle env ps2 =
           Inr (KList (fst (pickle_list [ParamsList] vals) @
                       [KList (map KStr (sort (md_strings env d2)))]))"
    by (rule idata_pickle_dict [OF assms(2) assms(4) assms(6) assms(8) assms(9)])
  have inj: "map KStr xs = map KStr ys \<longleftrightarrow> xs = ys" for xs ys :: "string list"
    by (simp add: inj_map_eq_map inj_on_def)
  have iff: "idata_pickle env ps1 = idata_pickle env ps2 \<longleftrightarrow>
            mset (md_strings env d1) = mset (md_strings env d2)"
    unfolding p1 p2 by (simp add: inj sort_eq_iff_mset)
  have perm: "mset (md_strings env d1) = mset (md_strings env d2)" if "mset d1 = mset d2"
  proof -
    have "image_mset (\<lambda>kv. snd (fst kv) @ py_str env (snd kv)) (mset d1) =
          image_mset (\<lambda>kv. snd (fst kv) @ py_str env (snd kv)) (mset d2)"
      using that by simp
    then show ?thesis by (simp add: md_strings_def)
  qed
  show ?thesis
  proof (intro conjI impI)
    assume "mset d1 = mset d2"
    with iff perm have "idata_pickle env ps1 = idata_pickle env ps2" by blast
    then show "idataHash env ps1 = idataHash env ps2" by (simp add: idataHash_def)
  next
    show "idata_pickle env ps1 = idata_pickle env ps2 \<longleftrightarrow>
            mset (md_strings env d1) = mset (md_strings env d2)"
      by (rule iff)
  qed
qed

lemma sample_getVals:
  "getVals sample_pyenv cfg_a keylist =
     Inr [PNone, PNone, PStr (Loaded 1) ''name'', PNone, PNone, PNone, PNone, PNone, PNone,
          PNone, PNone, PNone, PNone, PNone]"
  "getVals sample_pyenv cfg_b keylist = getVals sample_pyenv cfg_a keylist"
  "getVals sample_pyenv cfg_a_reordered keylist = getVals sample_pyenv cfg_a keylist"
  by (simp_all add: keylist_def getVal.simps cfg_a_def cfg_b_def cfg_a_reordered_def)

text \<open>
  The configuration with the items of \<^verbatim>\<open>MD_settings\<close> in the other order has the same
  stamp, and the one with other values has the same pickle.
\<close>

theorem idataHash_order_and_strings_witness:
  "idataHash sample_pyenv cfg_a = idataHash sample_pyenv cfg_a_reordered \<and>
   idata_pickle sample_pyenv cfg_a = idata_pickle sample_pyenv cfg_b"
proof -
  let ?da = "[((Loaded 3, ''x''), PStr (Loaded 4) ''1y''), ((Loaded 5, ''x1''), PStr (Loaded 6) ''z'' :: unit pyobj)]"
  let ?dr = "[((Loaded 5, ''x1''), PStr (Loaded 6) ''z''), ((Loaded 3, ''x''), PStr (Loaded 4) ''1y'' :: unit pyobj)]"
  let ?db = "[((Loaded 3, ''x''), PStr (Loaded 4) ''1z''), ((Loaded 5, ''x1''), PStr (Loaded 6) ''y'' :: unit pyobj)]"
  let ?vals = "[PNone, PNone, PStr (Loaded 1) ''name'', PNone, PNone, PNone, PNone, PNone, PNone,
          PNone, PNone, PNone, PNone, PNone :: unit pyobj]"
  have va: "getVals sample_pyenv cfg_a keylist = Inr ?vals"
    and vb: "getVals sample_pyenv cfg_b keylist = Inr ?vals"
    and vr: "getVals sample_pyenv cfg_a_reordered keylist = Inr ?vals"
    by (simp_all add: sample_getVals)
  have da: "getDict cfg_a ''MD_settings'' = Inr (PDict (Loaded 2) ?da)"
    and dr: "getDict cfg_a_reordered ''MD_settings'' = Inr (PDict (Loaded 2) ?dr)"
    and db: "getDict cfg_b ''MD_settings'' = Inr (PDict (Loaded 2) ?db)"
    by (simp_all add: getDict_def cfg_a_def cfg_a_reordered_def cfg_b_def)
  have lo: "list_all loaded_only ?vals" by (simp add: is_loaded_def)
  have m: "mset ?da = mset ?dr" by simp
  have s: "mset (md_strings sample_pyenv ?da) = mset (md_strings sample_pyenv ?db)"
    by (simp add: md_strings_def py_str_def)
  have 1: "idataHash sample_pyenv cfg_a = idataHash sample_pyenv cfg_a_reordered"
    using idataHash_order_and_strings [OF va vr da dr _ _ _ _ lo] m
    by (simp add: py_str_def)
  have 2: "idata_pickle sample_pyenv cfg_a = idata_pickle sample_pyenv cfg_b"
    using idataHash_order_and_strings [OF va vb da db _ _ _ _ lo] s
    by (simp add: py_str_def)
  from 1 2 show ?thesis by simp
qed

text \<open>
  Claim C8 as the specification states it fails in both halves. Under the keys \<open>x\<close> and
  \<open>x1\<close> the values \<open>1y\<close>, \<open>z\<close> and the values \<open>1z\<close>, \<open>y\<close> give the same two
  strings \<open>x1y\<close> and \<open>x1z\<close>, and the stamps are identical. With the empty key, the
  string \<^verbatim>\<open>'' + str(value)\<close> is the value itself, here the object already pickled as the
  value of \<^verbatim>\<open>SDFile_name\<close>; the other item gives a new string of the same text, the
  sort leaves the two in the order of the items, and the reference comes first or second:
  the two orders of the same items have different stamps.
\<close>

theorem idataHash_counterexample:
  "idataHash sample_pyenv cfg_a =
     Inr (MD5 (KList
       [KNone, KNone, KStr ''name'', KNone, KNone, KNone, KNone, KNone, KNone, KNone, KNone,
        KNone, KNone, KNone, KList [KStr ''x1y'', KStr ''x1z'']])) \<and>
   idataHash sample_pyenv cfg_b = idataHash sample_pyenv cfg_a \<and>
   idataHash sample_pyenv cfg_c =
     Inr (MD5 (KList
       [KNone, KNone, KStr ''name'', KNone, KNone, KNone, KNone, KNone, KNone, KNone, KNone,
        KNone, KNone, KNone, KList [KGet 1, KStr ''name'']])) \<and>
   idataHash sample_pyenv cfg_c_reordered =
     Inr (MD5 (KList
       [KNone, KNone, KStr ''name'', KNone, KNone, KNone, KNone, KNone, KNone, KNone, KNone,
        KNone, KNone, KNone, KList [KStr ''name'', KGet 1]]))"
  by code_simp

end
